theory Spec2Isabelle
  imports Complex_Main "HOL-Library.Sublist"
begin

section \<open>Attendance classification (AdminView.tsx, UserHistoryPanel.tsx)\<close>

subsection \<open>JavaScript numbers and strings as the classifier meets them\<close>

text \<open>
  The classifier only ever holds hours and minutes: numbers read from strings of decimal
  digits by \<^verbatim>\<open>Number(...)\<close>. A JavaScript number is modelled as a natural number
  or \<open>NaN\<close>; every comparison with \<open>NaN\<close> is false, as in JavaScript.
\<close>

datatype jsnum = NaN | Num nat

fun js_lt :: "jsnum \<Rightarrow> jsnum \<Rightarrow> bool" where
  "js_lt (Num x) (Num y) = (x < y)"
| "js_lt _ _ = False"

fun js_le :: "jsnum \<Rightarrow> jsnum \<Rightarrow> bool" where
  "js_le (Num x) (Num y) = (x \<le> y)"
| "js_le _ _ = False"

fun js_eq :: "jsnum \<Rightarrow> jsnum \<Rightarrow> bool" where
  "js_eq (Num x) (Num y) = (x = y)"
| "js_eq _ _ = False"

definition is_digit :: "char \<Rightarrow> bool" where
  "is_digit c = (c \<in> set ''0123456789'')"

definition digit_val :: "char \<Rightarrow> nat" where
  "digit_val c = of_char c - 48"

definition dec_val :: "string \<Rightarrow> nat" where
  "dec_val s = foldl (\<lambda>n c. 10 * n + digit_val c) 0 s"

text \<open>
  \<^verbatim>\<open>Number(s)\<close> on the strings this code passes to it: the two-digit groups of the
  cutoff pattern, the values of date-format parts, and the default \<^verbatim>\<open>"0"\<close>. A string
  of decimal digits reads as its value and the empty string as 0. On any other string
  the model answers \<open>NaN\<close>; JavaScript also accepts signs, surrounding white space,
  fractions, exponents and radix prefixes, none of which a two-digit numeric
  date-format part carries.
\<close>

definition Number_str :: "string \<Rightarrow> jsnum" where
  "Number_str s = (if list_all is_digit s then Num (dec_val s) else NaN)"

subsection \<open>Records\<close>

text \<open>
  Modelled from the spec: the \<^verbatim>\<open>AttendanceRecord\<close> type of \<^verbatim>\<open>src/types\<close>, which is
  not among the sources. The fields are those of the spec's data model, with the
  optionality the components rely on (\<^verbatim>\<open>timeZone?: string\<close>,
  \<^verbatim>\<open>record.latitude ?? ...\<close>, \<^verbatim>\<open>item.flagComment &&\<close>); \<open>None\<close> stands for an
  absent field.
\<close>

datatype stored_status = on_time | late

record attendance_record =
  rec_id :: string
  userId :: string
  userName :: string
  capturedAt :: string
  timezone :: "string option"
  locationLabel :: string
  ar_latitude :: "rat option"
  ar_longitude :: "rat option"
  ar_accuracy :: "rat option"
  photoUrl :: string
  photoPublicId :: string
  status :: "stored_status option"
  flagComment :: "string option"

text \<open>The status column of the admin table: \<^verbatim>\<open>"On time" | "Late" | "Missing"\<close>.\<close>

datatype row_status = On_time | Late | Missing

record time_parts =
  hour :: jsnum
  minute :: jsnum

subsection \<open>The platform's date services\<close>

text \<open>
  \<^verbatim>\<open>new Date(iso)\<close> and \<^verbatim>\<open>Intl.DateTimeFormat\<close> belong to the JavaScript runtime, so
  they are parameters of the model. An instant is the number of milliseconds a valid
  \<^verbatim>\<open>Date\<close> holds; \<open>Date_parse\<close> answers \<open>None\<close> for an invalid date
  (\<^verbatim>\<open>getTime()\<close> is \<^verbatim>\<open>NaN\<close>). \<open>formatInZone z d\<close> is
  \<^verbatim>\<open>new Intl.DateTimeFormat("en-US", {hour: "2-digit", minute: "2-digit", hour12: false,
  timeZone: z}).formatToParts(d)\<close>, a list of (type, value) parts, or \<open>None\<close> when the
  constructor throws (a time zone it does not know). \<open>formatLocal d\<close> is the same call
  without a time zone, which formats in the system's zone and does not throw on a valid
  date.
\<close>

type_synonym instant = int

type_synonym format_part = "string \<times> string"

record intl =
  Date_parse :: "string \<Rightarrow> instant option"
  formatInZone :: "string \<Rightarrow> instant \<Rightarrow> format_part list option"
  formatLocal :: "instant \<Rightarrow> format_part list"

subsection \<open>parseCutoffTime, getLocalTimeParts, resolveStatus\<close>

text \<open>
  \<^verbatim>\<open>value.match(/^([01]\d|2[0-3]):([0-5]\d)$/)\<close>: exactly five characters. Without the
  \<^verbatim>\<open>m\<close> flag \<^verbatim>\<open>$\<close> matches at the end of the input only, and \<^verbatim>\<open>\d\<close> is an ASCII digit.
\<close>

definition parseCutoffTime :: "string \<Rightarrow> time_parts option" where
  "parseCutoffTime value =
     (case value of
        [a, b, c, d, e] \<Rightarrow>
          if ((a \<in> set ''01'' \<and> is_digit b) \<or> (a = CHR ''2'' \<and> b \<in> set ''0123''))
             \<and> c = CHR '':'' \<and> d \<in> set ''012345'' \<and> is_digit e
          then Some \<lparr>hour = Number_str [a, b], minute = Number_str [d, e]\<rparr>
          else None
      | _ \<Rightarrow> None)"

text \<open>\<^verbatim>\<open>parts.find((part) => part.type === ty)?.value ?? "0"\<close>\<close>

definition part_value :: "string \<Rightarrow> format_part list \<Rightarrow> string" where
  "part_value ty parts =
     (case find (\<lambda>part. fst part = ty) parts of
        Some part \<Rightarrow> snd part
      | None \<Rightarrow> ''0'')"

text \<open>The three lines that the \<^verbatim>\<open>try\<close> block and the \<^verbatim>\<open>catch\<close> block share.\<close>

definition parts_time :: "format_part list \<Rightarrow> time_parts" where
  "parts_time parts =
     \<lparr>hour = Number_str (part_value ''hour'' parts),
      minute = Number_str (part_value ''minute'' parts)\<rparr>"

definition getLocalTimeParts :: "intl \<Rightarrow> string \<Rightarrow> string option \<Rightarrow> time_parts" where
  "getLocalTimeParts P isoString timeZone =
     (case Date_parse P isoString of
        None \<Rightarrow> \<lparr>hour = Num 0, minute = Num 0\<rparr>
      | Some date \<Rightarrow>
          (case timeZone of
             None \<Rightarrow> parts_time (formatLocal P date)
           | Some z \<Rightarrow>
               (case formatInZone P z date of
                  Some parts \<Rightarrow> parts_time parts
                | None \<Rightarrow> parts_time (formatLocal P date))))"

definition resolveStatus :: "intl \<Rightarrow> attendance_record \<Rightarrow> string \<Rightarrow> row_status" where
  "resolveStatus P item cutoffTime =
     (let cutoff = (case parseCutoffTime cutoffTime of
                      Some c \<Rightarrow> c
                    | None \<Rightarrow> \<lparr>hour = Num 8, minute = Num 0\<rparr>);
          t = getLocalTimeParts P (capturedAt item) (timezone item)
      in if js_lt (hour t) (hour cutoff) then On_time
         else if js_eq (hour t) (hour cutoff) \<and> js_le (minute t) (minute cutoff) then On_time
         else Late)"

text \<open>
  The status cell of a row of \<^verbatim>\<open>attendanceRows\<close> in the admin table, and of a row of
  the per-user history table (\<^verbatim>\<open>statusLabel(item.status)\<close>, which has no
  \<^verbatim>\<open>"Missing"\<close>).
\<close>

definition attendanceRow_status :: "intl \<Rightarrow> string \<Rightarrow> attendance_record \<Rightarrow> row_status" where
  "attendanceRow_status P cutoffTime item = resolveStatus P item cutoffTime"

definition statusLabel :: "stored_status option \<Rightarrow> row_status" where
  "statusLabel st = (if st = Some late then Late else On_time)"

definition history_status :: "attendance_record \<Rightarrow> row_status" where
  "history_status item = statusLabel (status item)"

subsection \<open>Writing a cutoff as HH:mm\<close>

text \<open>
  The spec's cutoff format: two digits of hours, a colon, two digits of minutes. This is
  the notation of the claims, not code of the repository.
\<close>

definition digit_char :: "nat \<Rightarrow> char" where
  "digit_char d = ''0123456789'' ! d"

definition hhmm :: "nat \<Rightarrow> nat \<Rightarrow> string" where
  "hhmm h m = [digit_char (h div 10), digit_char (h mod 10), CHR '':'',
               digit_char (m div 10), digit_char (m mod 10)]"

section \<open>Device location (lib/location)\<close>

subsection \<open>Values\<close>

datatype location_source = gps | network

text \<open>\<^verbatim>\<open>LocationResult\<close>. Numbers are rationals: every finite double is one.\<close>

record location_result =
  label :: string
  latitude :: rat
  longitude :: rat
  accuracy :: "rat option"
  source :: location_source

text \<open>
  \<^verbatim>\<open>position.coords\<close> of a \<^verbatim>\<open>GeolocationPosition\<close>, the three attributes the code
  reads. The platform declares them \<^verbatim>\<open>double\<close>, which excludes \<^verbatim>\<open>NaN\<close> and the
  infinities.
\<close>

record coords =
  coords_latitude :: rat
  coords_longitude :: rat
  coords_accuracy :: rat

record position_options =
  enableHighAccuracy :: bool
  timeout :: nat
  maximumAge :: nat

text \<open>
  What a rejected position request carries, as far as \<^verbatim>\<open>isRetryableError\<close> and
  \<^verbatim>\<open>mapGeoError\<close> look at it (their parameter is \<^verbatim>\<open>unknown\<close>): either nothing they
  accept as an object (a falsy value or a primitive), or an object, with the value of
  its \<^verbatim>\<open>code\<close> property when it has one and whether it has a \<^verbatim>\<open>message\<close> property.
  A \<^verbatim>\<open>GeolocationPositionError\<close> is \<open>Object (Some c) True\<close>. A code that is not a
  number compares unequal to the three constants, as any number other than 1, 2, 3 does.
\<close>

datatype rejection = NoObject | Object "int option" bool

abbreviation (input) PERMISSION_DENIED :: int where "PERMISSION_DENIED \<equiv> 1"
abbreviation (input) POSITION_UNAVAILABLE :: int where "POSITION_UNAVAILABLE \<equiv> 2"
abbreviation (input) TIMEOUT :: int where "TIMEOUT \<equiv> 3"

subsection \<open>The browser\<close>

text \<open>
  The parts of the browser the module talks to. \<open>geolocation\<close> says whether
  \<^verbatim>\<open>navigator.geolocation\<close> is there. \<open>getCurrentPosition opts\<close> is the outcome of one
  single-shot request with the options \<open>opts\<close>: the rejection or the position passed to
  the callback. \<open>watchPosition opts\<close> is the first callback a watch started with
  \<open>opts\<close> invokes; the platform settles every request, at the latest when its timeout
  expires. \<open>Number_toString\<close> is the runtime's conversion of a number to a
  string, which the model calls only where it does not compute the digits itself: in
  \<^verbatim>\<open>toFixed\<close> for magnitudes of at least \<open>10\<^sup>2\<^sup>1\<close>, in a template literal for
  integers of magnitude at least \<open>2\<^sup>5\<^sup>3\<close>.
\<close>

record browser =
  geolocation :: bool
  isSecureContext :: bool
  hostname :: string
  getCurrentPosition :: "position_options \<Rightarrow> rejection + coords"
  watchPosition :: "position_options \<Rightarrow> rejection + coords"
  Number_toString :: "rat \<Rightarrow> string"

text \<open>The calls on \<^verbatim>\<open>navigator.geolocation\<close> that a run issues, in order.\<close>

datatype geo_call =
  GetCurrentPosition position_options
| WatchPosition position_options
| ClearWatch

subsection \<open>Numbers to text\<close>

text \<open>The decimal digits of a natural number, without leading zeros (\<open>0\<close> is \<^verbatim>\<open>"0"\<close>).\<close>

function nat_digits :: "nat \<Rightarrow> string" where
  "nat_digits n =
     (if n < 10 then [digit_char n] else nat_digits (n div 10) @ [digit_char (n mod 10)])"
  by pat_completeness auto
termination
  by (relation "measure id") auto

declare nat_digits.simps [simp del]

text \<open>
  \<^verbatim>\<open>x.toFixed(f)\<close> on a finite number, following Number.prototype.toFixed: the sign is
  split off; from \<open>10\<^sup>2\<^sup>1\<close> on the result is the runtime's plain conversion; otherwise
  \<open>n\<close> is the integer with \<open>n / 10\<^sup>f\<close> nearest to \<open>x\<close> (the larger one on a tie),
  its digits are padded with zeros to \<open>f + 1\<close> characters, and the point goes before
  the last \<open>f\<close>.
\<close>

definition toFixed :: "(rat \<Rightarrow> string) \<Rightarrow> rat \<Rightarrow> nat \<Rightarrow> string" where
  "toFixed toStr x0 f =
     (let s = (if x0 < 0 then ''-'' else []);
          x = \<bar>x0\<bar>
      in if 10 ^ 21 \<le> x then s @ toStr x
         else
           let n = nat \<lfloor>x * 10 ^ f + 1 / 2\<rfloor>;
               m = nat_digits n;
               z = (if length m \<le> f then replicate (f + 1 - length m) (CHR ''0'') @ m else m)
           in if f \<noteq> 0
              then s @ take (length z - f) z @ ''.'' @ drop (length z - f) z
              else s @ m)"

text \<open>\<^verbatim>\<open>Math.round\<close>: the nearest integer, the one towards \<open>+\<infinity>\<close> on a tie.\<close>

definition Math_round :: "rat \<Rightarrow> int" where
  "Math_round x = \<lfloor>x + 1 / 2\<rfloor>"

text \<open>
  An integral number inside a template literal (\<^verbatim>\<open>${acc}\<close>). The runtime writes the
  shortest digits that read back as the same double. Below \<open>2\<^sup>5\<^sup>3\<close> every integer is a
  double of its own, so these are the integer's exact digits; from \<open>2\<^sup>5\<^sup>3\<close> on they
  need not be (\<open>2\<^sup>6\<^sup>0\<close> is written \<^verbatim>\<open>1152921504606847000\<close>), and the text is the
  runtime's.
\<close>

definition template_int :: "(rat \<Rightarrow> string) \<Rightarrow> int \<Rightarrow> string" where
  "template_int toStr i =
     (if \<bar>i\<bar> < 2 ^ 53
      then (if i < 0 then ''-'' else []) @ nat_digits (nat \<bar>i\<bar>)
      else toStr (of_int i))"

subsection \<open>formatPosition, isRetryableError, mapGeoError\<close>

definition formatPosition :: "browser \<Rightarrow> coords \<Rightarrow> location_result" where
  "formatPosition B position =
     (let lat = toFixed (Number_toString B) (coords_latitude position) 5;
          lng = toFixed (Number_toString B) (coords_longitude position) 5;
          acc = Math_round (coords_accuracy position)
      in \<lparr>label = ''GPS '' @ lat @ '', '' @ lng @ '' (+/-'' @ template_int (Number_toString B) acc @ ''m)'',
          latitude = coords_latitude position,
          longitude = coords_longitude position,
          accuracy = Some (of_int acc),
          source = gps\<rparr>)"

fun isRetryableError :: "rejection \<Rightarrow> bool" where
  "isRetryableError NoObject = False"
| "isRetryableError (Object c has_message) =
     ((c \<noteq> None \<or> has_message) \<and> c \<noteq> Some PERMISSION_DENIED)"

fun mapGeoError :: "rejection \<Rightarrow> string" where
  "mapGeoError (Object (Some c) has_message) =
     (if c = PERMISSION_DENIED
        then ''Location permission denied. Please allow location access and retry.''
      else if c = POSITION_UNAVAILABLE
        then ''Location is unavailable. Check your device GPS and try again.''
      else if c = TIMEOUT
        then ''Location request timed out. Try again in a few seconds.''
      else ''Unable to fetch location.'')"
| "mapGeoError _ = ''Unable to fetch location.''"

subsection \<open>getPosition, getPositionWithWatch, getDeviceLocation\<close>

text \<open>
  Each function returns the calls it issued together with its outcome. A promise that
  rejects with \<^verbatim>\<open>new Error(msg)\<close> is \<open>Inl msg\<close>. The watch clears itself in both of
  its callbacks, before it settles the promise.
\<close>

definition getPosition :: "browser \<Rightarrow> position_options \<Rightarrow> geo_call list \<times> (rejection + coords)" where
  "getPosition B options = ([GetCurrentPosition options], getCurrentPosition B options)"

definition getPositionWithWatch ::
  "browser \<Rightarrow> position_options \<Rightarrow> geo_call list \<times> (rejection + coords)" where
  "getPositionWithWatch B options = ([WatchPosition options, ClearWatch], watchPosition B options)"

definition getDeviceLocation :: "browser \<Rightarrow> geo_call list \<times> (string + location_result)" where
  "getDeviceLocation B =
     (if \<not> geolocation B then ([], Inl ''Geolocation is not supported on this device.'')
      else if \<not> isSecureContext B \<and> hostname B \<noteq> ''localhost''
        then ([], Inl ''Location requires HTTPS. Please use a secure connection.'')
      else
        case getPosition B \<lparr>enableHighAccuracy = True, timeout = 12000, maximumAge = 0\<rparr> of
          (t1, Inr position) \<Rightarrow> (t1, Inr (formatPosition B position))
        | (t1, Inl error) \<Rightarrow>
            if isRetryableError error then
              case getPositionWithWatch B
                     \<lparr>enableHighAccuracy = True, timeout = 20000, maximumAge = 0\<rparr> of
                (t2, Inr watchPosition') \<Rightarrow> (t1 @ t2, Inr (formatPosition B watchPosition'))
              | (t2, Inl watchError) \<Rightarrow>
                  if isRetryableError watchError then
                    case getPosition B
                           \<lparr>enableHighAccuracy = False, timeout = 20000, maximumAge = 60000\<rparr> of
                      (t3, Inr fallbackPosition) \<Rightarrow>
                        (t1 @ t2 @ t3, Inr (formatPosition B fallbackPosition))
                    | (t3, Inl fallbackError) \<Rightarrow> (t1 @ t2 @ t3, Inl (mapGeoError fallbackError))
                  else (t1 @ t2, Inl (mapGeoError watchError))
            else (t1, Inl (mapGeoError error)))"

subsection \<open>Notation for the claims\<close>

text \<open>The option objects the three requests are written with.\<close>

abbreviation tier1 :: position_options where
  "tier1 \<equiv> \<lparr>enableHighAccuracy = True, timeout = 12000, maximumAge = 0\<rparr>"

abbreviation tier2 :: position_options where
  "tier2 \<equiv> \<lparr>enableHighAccuracy = True, timeout = 20000, maximumAge = 0\<rparr>"

abbreviation tier3 :: position_options where
  "tier3 \<equiv> \<lparr>enableHighAccuracy = False, timeout = 20000, maximumAge = 60000\<rparr>"

text \<open>
  The two guards before the first request pass: the capability is there, and the context
  is secure or the host is \<^verbatim>\<open>localhost\<close>.
\<close>

definition ready :: "browser \<Rightarrow> bool" where
  "ready B = (geolocation B \<and> (isSecureContext B \<or> hostname B = ''localhost''))"

text \<open>
  The number that a string of the shape digits, point, digits denotes, with an optional
  minus sign in front. It is the reading of a label's coordinates, not code of the
  repository.
\<close>

definition fixed_value :: "string \<Rightarrow> rat" where
  "fixed_value s =
     (let neg = (take 1 s = ''-'');
          t = (if neg then drop 1 s else s);
          a = takeWhile (\<lambda>c. c \<noteq> CHR ''.'') t;
          b = drop (length a + 1) t;
          v = of_nat (dec_val a) + of_nat (dec_val b) / 10 ^ length b
      in if neg then - v else v)"

section \<open>Check-in (the user view)\<close>

subsection \<open>The server and what it answers\<close>

text \<open>
  What a failed \<^verbatim>\<open>apiRequest\<close> throws, as far as \<^verbatim>\<open>err instanceof Error ? err.message :
  ...\<close> looks at it.
\<close>

datatype thrown = JsError string | NonError

definition message_or :: "thrown \<Rightarrow> string \<Rightarrow> string" where
  "message_or err dflt = (case err of JsError msg \<Rightarrow> msg | NonError \<Rightarrow> dflt)"

record upload_result =
  url :: string
  publicId :: string

text \<open>The body of \<^verbatim>\<open>POST /attendance\<close>.\<close>

record attendance_body =
  body_locationLabel :: string
  body_latitude :: rat
  body_longitude :: rat
  body_accuracy :: "rat option"
  body_photoUrl :: string
  body_photoPublicId :: string

text \<open>The answer of \<^verbatim>\<open>GET /location/ip\<close>.\<close>

record ip_location =
  ip_label :: string
  ip_latitude :: "rat option"
  ip_longitude :: "rat option"

text \<open>
  The server as the handlers see it through \<^verbatim>\<open>apiRequest\<close>: for each request (its
  token first), the value the promise resolves to or what it rejects with. A handler
  sends each request at most once, so a function per request loses nothing.
\<close>

record server =
  post_uploads_photo :: "string \<Rightarrow> string \<Rightarrow> thrown + upload_result"
  post_attendance :: "string \<Rightarrow> attendance_body \<Rightarrow> thrown + attendance_record"
  delete_attendance :: "string \<Rightarrow> string \<Rightarrow> thrown + unit"
  get_location_ip :: "string \<Rightarrow> thrown + ip_location"

text \<open>The calls a handler issues, in order: on the device and to the server.\<close>

datatype remote_call =
  Geo geo_call
| UploadPhoto string string
| PostAttendance string attendance_body
| DeleteAttendance string string
| GetLocationIp string
| GetAttendanceToday string

subsection \<open>The component's state\<close>

record view_state =
  attendance :: "attendance_record option"
  loading :: bool
  cameraOpen :: bool
  snapshot :: "string option"
  uploading :: bool
  error :: string
  location :: "location_result option"
  locationError :: string
  locationChecking :: bool
  locationSource :: "location_source option"

text \<open>A \<^verbatim>\<open>string | null\<close> used as a condition: \<^verbatim>\<open>null\<close> and \<^verbatim>\<open>""\<close> are falsy.\<close>

definition truthy :: "string option \<Rightarrow> bool" where
  "truthy s = (case s of None \<Rightarrow> False | Some v \<Rightarrow> v \<noteq> [])"

text \<open>The initial values of the \<^verbatim>\<open>useState\<close> calls: the state when the page mounts.\<close>

definition initial_state :: view_state where
  "initial_state =
     \<lparr>attendance = None, loading = True, cameraOpen = False, snapshot = None,
      uploading = False, error = [], location = None, locationError = [],
      locationChecking = False, locationSource = None\<rparr>"

subsection \<open>The effects\<close>

text \<open>
  The effect on \<^verbatim>\<open>[token]\<close>, in its two halves. \<open>loadToday\<close> is its body: with a token
  it sets \<open>loading\<close> and sends the request for today's record. \<open>todayLoaded\<close> is what
  the callbacks do when that request settles, with the list of items or with what was
  thrown: the first item, or none, becomes the today slot.
\<close>

definition loadToday :: "string option \<Rightarrow> view_state \<Rightarrow> remote_call list \<times> view_state" where
  "loadToday token st =
     (case token of
        None \<Rightarrow> ([], st)
      | Some tok \<Rightarrow>
          if tok = [] then ([], st)
          else ([GetAttendanceToday tok], st\<lparr>loading := True\<rparr>))"

definition todayLoaded :: "thrown + attendance_record list \<Rightarrow> view_state \<Rightarrow> view_state" where
  "todayLoaded answer st =
     (case answer of
        Inr items \<Rightarrow>
          st\<lparr>attendance := (case items of [] \<Rightarrow> None | item # rest \<Rightarrow> Some item),
             loading := False\<rparr>
      | Inl err \<Rightarrow>
          st\<lparr>error := message_or err ''Unable to load attendance'', loading := False\<rparr>)"

text \<open>
  The effect on \<^verbatim>\<open>[cameraOpen]\<close>, as far as it touches the state. With the camera
  closed it only stops the stream. With the camera open it asks for the stream: when
  \<^verbatim>\<open>getUserMedia\<close> is missing or the request is refused, it sets the error and closes
  the camera again; a granted stream goes to a ref and leaves the state alone.
\<close>

datatype camera = CameraMissing | CameraDenied | CameraGranted

definition cameraEffect :: "camera \<Rightarrow> view_state \<Rightarrow> view_state" where
  "cameraEffect cam st =
     (if \<not> cameraOpen st then st
      else case cam of
             CameraMissing \<Rightarrow>
               st\<lparr>error := ''Camera not supported in this browser.'', cameraOpen := False\<rparr>
           | CameraDenied \<Rightarrow>
               st\<lparr>error := ''Unable to access camera. Check permissions.'', cameraOpen := False\<rparr>
           | CameraGranted \<Rightarrow> st)"

subsection \<open>The handlers\<close>

text \<open>
  A handler is a function from the state it starts in (the one its closure holds) to
  the calls it issues and the state after all its setters. The model does not interleave:
  a handler runs to its end before the next event is taken up (the controls are disabled
  while \<open>uploading\<close> or \<open>locationChecking\<close> is set).
\<close>

definition toggleCamera :: "view_state \<Rightarrow> view_state" where
  "toggleCamera st =
     (if attendance st \<noteq> None then st
      else if cameraOpen st then st\<lparr>error := [], cameraOpen := False\<rparr>
      else st\<lparr>error := [], snapshot := None, cameraOpen := True\<rparr>)"

text \<open>
  \<open>frame\<close> is the data URL the canvas yields, \<open>None\<close> when the video element or the
  2d context is missing.
\<close>

definition capturePhoto :: "string option \<Rightarrow> view_state \<Rightarrow> view_state" where
  "capturePhoto frame st =
     (case frame of
        None \<Rightarrow> st
      | Some dataUrl \<Rightarrow> st\<lparr>snapshot := Some dataUrl, cameraOpen := False\<rparr>)"

definition handleRetake :: "view_state \<Rightarrow> view_state" where
  "handleRetake st = st\<lparr>snapshot := None, cameraOpen := True\<rparr>"

definition checkLocation :: "browser \<Rightarrow> view_state \<Rightarrow> remote_call list \<times> view_state" where
  "checkLocation B st =
     (let st1 = st\<lparr>locationChecking := True, locationError := []\<rparr>
      in case getDeviceLocation B of
           (t, Inr result) \<Rightarrow>
             (map Geo t,
              st1\<lparr>location := Some result, locationSource := Some gps, locationChecking := False\<rparr>)
         | (t, Inl msg) \<Rightarrow>
             (map Geo t,
              st1\<lparr>location := None, locationSource := None, locationError := msg,
                  locationChecking := False\<rparr>))"

definition useNetworkLocation ::
  "server \<Rightarrow> string option \<Rightarrow> view_state \<Rightarrow> remote_call list \<times> view_state" where
  "useNetworkLocation S token st =
     (case token of
        None \<Rightarrow> ([], st)
      | Some tok \<Rightarrow>
          if tok = [] then ([], st)
          else
            let st1 = st\<lparr>locationChecking := True, locationError := []\<rparr>
            in case get_location_ip S tok of
                 Inr data \<Rightarrow>
                   ([GetLocationIp tok],
                    (case (ip_latitude data, ip_longitude data) of
                       (Some la, Some lo) \<Rightarrow>
                         st1\<lparr>location := Some \<lparr>label = ip_label data, latitude = la,
                                longitude = lo, accuracy = None, source = network\<rparr>\<rparr>
                     | _ \<Rightarrow> st1\<lparr>location := None\<rparr>)
                    \<lparr>locationSource := Some network, locationChecking := False\<rparr>)
               | Inl err \<Rightarrow>
                   ([GetLocationIp tok],
                    st1\<lparr>location := None, locationSource := None,
                        locationError := message_or err ''Unable to fetch network location.'',
                        locationChecking := False\<rparr>))"

text \<open>
  \<^verbatim>\<open>location ?? (await getDeviceLocation())\<close>: the position already in the state, with
  no call, or else a run of the ladder.
\<close>

definition resolveLocation ::
  "browser \<Rightarrow> view_state \<Rightarrow> geo_call list \<times> (string + location_result)" where
  "resolveLocation B st =
     (case location st of
        Some l \<Rightarrow> ([], Inr l)
      | None \<Rightarrow> getDeviceLocation B)"

definition attendanceBody :: "location_result \<Rightarrow> upload_result \<Rightarrow> attendance_body" where
  "attendanceBody resolvedLocation upload =
     \<lparr>body_locationLabel = label resolvedLocation,
      body_latitude = latitude resolvedLocation,
      body_longitude = longitude resolvedLocation,
      body_accuracy = accuracy resolvedLocation,
      body_photoUrl = url upload,
      body_photoPublicId = publicId upload\<rparr>"

text \<open>The argument of \<^verbatim>\<open>setLocation\<close> after the record has come back.\<close>

definition savedLocation ::
  "attendance_record \<Rightarrow> location_result \<Rightarrow> location_source option \<Rightarrow> location_result" where
  "savedLocation record resolvedLocation src =
     \<lparr>label = locationLabel record,
      latitude = (case ar_latitude record of Some v \<Rightarrow> v | None \<Rightarrow> latitude resolvedLocation),
      longitude = (case ar_longitude record of Some v \<Rightarrow> v | None \<Rightarrow> longitude resolvedLocation),
      accuracy = (case ar_accuracy record of Some v \<Rightarrow> Some v | None \<Rightarrow> accuracy resolvedLocation),
      source = (case src of Some v \<Rightarrow> v | None \<Rightarrow> gps)\<rparr>"

definition handleUploadAndSave ::
  "browser \<Rightarrow> server \<Rightarrow> string option \<Rightarrow> view_state \<Rightarrow> remote_call list \<times> view_state" where
  "handleUploadAndSave B S token st =
     (case (snapshot st, token) of
        (Some snap, Some tok) \<Rightarrow>
          if snap = [] \<or> tok = [] then ([], st)
          else
            let st1 = st\<lparr>uploading := True, error := []\<rparr>
            in case resolveLocation B st of
                 (t, Inl message) \<Rightarrow>
                   (map Geo t,
                    st1\<lparr>error := message, locationError := message, uploading := False\<rparr>)
               | (t, Inr resolvedLocation) \<Rightarrow>
                   let st2 = (if locationSource st = None
                              then st1\<lparr>locationSource := Some gps\<rparr> else st1)
                   in case post_uploads_photo S tok snap of
                        Inl err \<Rightarrow>
                          (map Geo t @ [UploadPhoto tok snap],
                           st2\<lparr>error := message_or err ''Upload failed'', uploading := False\<rparr>)
                      | Inr upload \<Rightarrow>
                          let body = attendanceBody resolvedLocation upload
                          in case post_attendance S tok body of
                               Inl err \<Rightarrow>
                                 (map Geo t @ [UploadPhoto tok snap, PostAttendance tok body],
                                  st2\<lparr>error := message_or err ''Upload failed'',
                                      uploading := False\<rparr>)
                             | Inr record \<Rightarrow>
                                 (map Geo t @ [UploadPhoto tok snap, PostAttendance tok body],
                                  st2\<lparr>attendance := Some record,
                                      location := Some (savedLocation record resolvedLocation
                                                          (locationSource st)),
                                      snapshot := None,
                                      uploading := False\<rparr>)
      | _ \<Rightarrow> ([], st))"

definition handleDelete ::
  "server \<Rightarrow> string option \<Rightarrow> view_state \<Rightarrow> remote_call list \<times> view_state" where
  "handleDelete S token st =
     (case (attendance st, token) of
        (Some a, Some tok) \<Rightarrow>
          if tok = [] then ([], st)
          else
            let st1 = st\<lparr>uploading := True, error := []\<rparr>
            in (case delete_attendance S tok (rec_id a) of
                  Inr u \<Rightarrow>
                    ([DeleteAttendance tok (rec_id a)],
                     st1\<lparr>attendance := None, uploading := False\<rparr>)
                | Inl err \<Rightarrow>
                    ([DeleteAttendance tok (rec_id a)],
                     st1\<lparr>error := message_or err ''Unable to delete entry'', uploading := False\<rparr>))
      | _ \<Rightarrow> ([], st))"

subsection \<open>The controls\<close>

text \<open>
  The buttons of the page, with the conditions under which the JSX renders them and
  leaves them enabled. The capture button carries the frame the canvas would yield.
\<close>

datatype control =
  CameraButton
| CaptureButton "string option"
| UploadSaveButton
| RetakeButton
| DeleteButton
| CheckLocationButton
| NetworkLocationButton

fun offered :: "view_state \<Rightarrow> control \<Rightarrow> bool" where
  "offered st CameraButton = (\<not> (attendance st \<noteq> None \<or> uploading st))"
| "offered st (CaptureButton frame) = cameraOpen st"
| "offered st UploadSaveButton = (truthy (snapshot st) \<and> attendance st = None \<and> \<not> uploading st)"
| "offered st RetakeButton = (truthy (snapshot st) \<and> attendance st = None \<and> \<not> uploading st)"
| "offered st DeleteButton = (attendance st \<noteq> None \<and> \<not> uploading st)"
| "offered st CheckLocationButton =
     (attendance st = None \<and> \<not> (locationChecking st \<or> uploading st))"
| "offered st NetworkLocationButton =
     (attendance st = None \<and> locationError st \<noteq> [] \<and> \<not> (locationChecking st \<or> uploading st))"

fun handler ::
  "browser \<Rightarrow> server \<Rightarrow> string option \<Rightarrow> control \<Rightarrow> view_state \<Rightarrow> remote_call list \<times> view_state"
where
  "handler B S token CameraButton st = ([], toggleCamera st)"
| "handler B S token (CaptureButton frame) st = ([], capturePhoto frame st)"
| "handler B S token UploadSaveButton st = handleUploadAndSave B S token st"
| "handler B S token RetakeButton st = ([], handleRetake st)"
| "handler B S token DeleteButton st = handleDelete S token st"
| "handler B S token CheckLocationButton st = checkLocation B st"
| "handler B S token NetworkLocationButton st = useNetworkLocation S token st"

text \<open>
  A click does something only on a control the page offers. After the handler, the
  camera effect runs if \<open>cameraOpen\<close> has changed.
\<close>

definition click ::
  "camera \<Rightarrow> browser \<Rightarrow> server \<Rightarrow> string option \<Rightarrow> control \<Rightarrow> view_state
   \<Rightarrow> remote_call list \<times> view_state"
where
  "click cam B S token c st =
     (if offered st c
      then (case handler B S token c st of
              (calls, st1) \<Rightarrow>
                (calls, if cameraOpen st1 \<noteq> cameraOpen st then cameraEffect cam st1 else st1))
      else ([], st))"

text \<open>
  What happens to the page: it mounts, the request for today's record settles with an
  answer, or the user clicks a control.
\<close>

datatype event =
  Mount
| TodayAnswer "thrown + attendance_record list"
| Click control

fun step ::
  "camera \<Rightarrow> browser \<Rightarrow> server \<Rightarrow> string option \<Rightarrow> event \<Rightarrow> view_state
   \<Rightarrow> remote_call list \<times> view_state"
where
  "step cam B S token Mount st = loadToday token st"
| "step cam B S token (TodayAnswer answer) st = ([], todayLoaded answer st)"
| "step cam B S token (Click c) st = click cam B S token c st"

text \<open>
  A session: events one after the other, each with the camera, the browser and the
  server as they answer at that moment. It returns the calls issued at each event and
  the state at the end.
\<close>

fun session ::
  "string option \<Rightarrow> (event \<times> camera \<times> browser \<times> server) list \<Rightarrow> view_state
   \<Rightarrow> remote_call list list \<times> view_state"
where
  "session token [] st = ([], st)"
| "session token ((e, cam, B, S) # rest) st =
     (case step cam B S token e st of
        (calls, st1) \<Rightarrow>
          (case session token rest st1 of
             (entries, st2) \<Rightarrow> (calls # entries, st2)))"

section \<open>Test doubles\<close>

text \<open>
  A stand-in for the date services, for evaluating the classifier on concrete records:
  every non-empty timestamp is a valid date, and every instant reads \<open>hh:mm\<close> on the
  wall clock of \<^verbatim>\<open>Africa/Lagos\<close> and of the system's zone; no other zone is known.
\<close>

definition fixed_clock :: "string \<Rightarrow> string \<Rightarrow> intl" where
  "fixed_clock hh mm =
     \<lparr>Date_parse = (\<lambda>s. if s = [] then None else Some 0),
      formatInZone = (\<lambda>z d. if z = ''Africa/Lagos''
                             then Some [(''hour'', hh), (''literal'', '':''), (''minute'', mm)]
                             else None),
      formatLocal = (\<lambda>d. [(''hour'', hh), (''literal'', '':''), (''minute'', mm)])\<rparr>"

definition sample_record :: attendance_record where
  "sample_record =
     \<lparr>rec_id = ''a1'', userId = ''u1'', userName = ''Ada Obi'',
      capturedAt = ''2024-03-04T06:59:00.000Z'', timezone = Some ''Africa/Lagos'',
      locationLabel = ''GPS 6.52438, 3.37921 (+/-12m)'',
      ar_latitude = Some (652438 / 100000), ar_longitude = Some (337921 / 100000),
      ar_accuracy = Some 12,
      photoUrl = ''https://cdn.example/p1.jpg'', photoPublicId = ''p1'',
      status = Some late, flagComment = None\<rparr>"


text \<open>
  A fix, and a browser that passes both guards and answers the first request with \<open>o1\<close>,
  the watch with \<open>o2\<close> and the low-accuracy request with \<open>o3\<close>.
\<close>

definition sample_fix :: coords where
  "sample_fix = \<lparr>coords_latitude = 6524379 / 1000000, coords_longitude = - (3379206 / 1000000),
     coords_accuracy = 249 / 20\<rparr>"

definition test_browser :: "(rejection + coords) \<Rightarrow> (rejection + coords) \<Rightarrow> (rejection + coords) \<Rightarrow> browser" where
  "test_browser o1 o2 o3 =
     \<lparr>geolocation = True, isSecureContext = True, hostname = ''attendance.example'',
      getCurrentPosition = (\<lambda>opts. if enableHighAccuracy opts then o1 else o3),
      watchPosition = (\<lambda>opts. o2),
      Number_toString = (\<lambda>x. ''1e+21'')\<rparr>"

text \<open>
  A resolved position, an upload result, a server that accepts every request (and always
  returns the sample record), one that rejects every request, a record of the same day
  made before the sample record, and a state of the page with everything empty and
  nothing pending.
\<close>

definition sample_location :: location_result where
  "sample_location =
     \<lparr>label = ''GPS 6.52438, 3.37921 (+/-12m)'', latitude = 6524379 / 1000000,
      longitude = 3379206 / 1000000, accuracy = Some 12, source = gps\<rparr>"

definition sample_upload :: upload_result where
  "sample_upload = \<lparr>url = ''https://cdn.example/p1.jpg'', publicId = ''p1''\<rparr>"

definition accepting_server :: server where
  "accepting_server =
     \<lparr>post_uploads_photo = (\<lambda>tok dataUrl. Inr sample_upload),
      post_attendance = (\<lambda>tok body. Inr sample_record),
      delete_attendance = (\<lambda>tok i. Inr ()),
      get_location_ip = (\<lambda>tok. Inl (JsError ''Request failed''))\<rparr>"

definition rejecting_server :: server where
  "rejecting_server =
     \<lparr>post_uploads_photo = (\<lambda>tok dataUrl. Inl (JsError ''Request failed'')),
      post_attendance = (\<lambda>tok body. Inl (JsError ''Request failed'')),
      delete_attendance = (\<lambda>tok i. Inl (JsError ''Request failed'')),
      get_location_ip = (\<lambda>tok. Inl (JsError ''Request failed''))\<rparr>"

definition earlier_record :: attendance_record where
  "earlier_record =
     sample_record\<lparr>rec_id := ''a0'', capturedAt := ''2024-03-04T06:15:00.000Z'',
                    photoUrl := ''https://cdn.example/p0.jpg'', photoPublicId := ''p0'',
                    status := Some on_time\<rparr>"

definition idle_state :: view_state where
  "idle_state =
     \<lparr>attendance = None, loading = False, cameraOpen = False, snapshot = None,
      uploading = False, error = [], location = None, locationError = [],
      locationChecking = False, locationSource = None\<rparr>"

section \<open>Properties of the classifier\<close>

lemma digit_char_cases:
  fixes d :: nat
  assumes "d < 10"
  shows "d = 0 \<or> d = 1 \<or> d = 2 \<or> d = 3 \<or> d = 4 \<or> d = 5 \<or> d = 6 \<or> d = 7 \<or> d = 8 \<or> d = 9"
  using assms by arith

lemma digit_char_digit:
  assumes "d < 10"
  shows "is_digit (digit_char d)" and "digit_val (digit_char d) = d"
  using digit_char_cases [OF assms]
  by (auto simp: is_digit_def digit_val_def digit_char_def)

lemma Number_two_digits:
  assumes "x < 10" and "y < 10"
  shows "Number_str [digit_char x, digit_char y] = Num (10 * x + y)"
  using digit_char_digit [OF assms(1)] digit_char_digit [OF assms(2)]
  by (simp add: Number_str_def dec_val_def)

lemma hour_pattern:
  assumes "h < 24"
  shows "(digit_char (h div 10) \<in> set ''01'' \<and> is_digit (digit_char (h mod 10)))
       \<or> (digit_char (h div 10) = CHR ''2'' \<and> digit_char (h mod 10) \<in> set ''0123'')"
proof (cases "h < 20")
  case True
  then have "h div 10 = 0 \<or> h div 10 = 1" by arith
  moreover have "is_digit (digit_char (h mod 10))"
    by (rule digit_char_digit) simp
  ultimately show ?thesis by (auto simp: digit_char_def)
next
  case False
  with assms have "h div 10 = 2" and "h mod 10 = 0 \<or> h mod 10 = 1 \<or> h mod 10 = 2 \<or> h mod 10 = 3"
    by arith+
  then show ?thesis by (auto simp: digit_char_def)
qed

lemma minute_pattern:
  assumes "m < 60"
  shows "digit_char (m div 10) \<in> set ''012345'' \<and> is_digit (digit_char (m mod 10))"
proof -
  from assms have "m div 10 = 0 \<or> m div 10 = 1 \<or> m div 10 = 2 \<or> m div 10 = 3
      \<or> m div 10 = 4 \<or> m div 10 = 5" by arith
  moreover have "is_digit (digit_char (m mod 10))"
    by (rule digit_char_digit) simp
  ultimately show ?thesis by (auto simp: digit_char_def)
qed

lemma parseCutoffTime_hhmm:
  assumes "h < 24" and "m < 60"
  shows "parseCutoffTime (hhmm h m) = Some \<lparr>hour = Num h, minute = Num m\<rparr>"
proof -
  have H: "Number_str [digit_char (h div 10), digit_char (h mod 10)] = Num h"
    using assms(1) by (subst Number_two_digits) simp_all
  have M: "Number_str [digit_char (m div 10), digit_char (m mod 10)] = Num m"
    using assms(2) by (subst Number_two_digits) simp_all
  show ?thesis
    unfolding parseCutoffTime_def hhmm_def
    using hour_pattern [OF assms(1)] minute_pattern [OF assms(2)] H M
    by simp
qed

lemma is_digit_val:
  assumes "is_digit c"
  shows "digit_val c < 10"
  using assms by (auto simp: is_digit_def digit_val_def)

lemma Number_pair:
  assumes "is_digit a" and "is_digit b"
  shows "Number_str [a, b] = Num (10 * digit_val a + digit_val b)"
  using assms by (simp add: Number_str_def dec_val_def)

lemma parseCutoffTime_Some:
  assumes "parseCutoffTime s = Some c"
  shows "\<exists>h m. c = \<lparr>hour = Num h, minute = Num m\<rparr> \<and> h < 24 \<and> m < 60 \<and> s = hhmm h m"
proof -
  from assms obtain a b k d e where s: "s = [a, b, k, d, e]"
    by (auto simp: parseCutoffTime_def split: list.splits)
  from assms have pat:
    "(a \<in> set ''01'' \<and> is_digit b) \<or> (a = CHR ''2'' \<and> b \<in> set ''0123'')"
    "k = CHR '':''" "d \<in> set ''012345''" "is_digit e"
    and c: "c = \<lparr>hour = Number_str [a, b], minute = Number_str [d, e]\<rparr>"
    unfolding s parseCutoffTime_def by (simp_all split: if_splits)
  have da: "is_digit a" and db: "is_digit b" and dd: "is_digit d"
    using pat(1,3) by (auto simp: is_digit_def)
  let ?h = "10 * digit_val a + digit_val b"
  let ?m = "10 * digit_val d + digit_val e"
  have h24: "?h < 24"
    using pat(1) is_digit_val [OF db] by (auto simp: digit_val_def)
  have m60: "?m < 60"
    using pat(3) is_digit_val [OF \<open>is_digit e\<close>] by (auto simp: digit_val_def)
  have inv: "is_digit x \<Longrightarrow> digit_char (digit_val x) = x" for x
    by (auto simp: is_digit_def digit_val_def digit_char_def)
  have "?h div 10 = digit_val a" "?h mod 10 = digit_val b"
       "?m div 10 = digit_val d" "?m mod 10 = digit_val e"
    using is_digit_val [OF db] is_digit_val [OF \<open>is_digit e\<close>] by simp_all
  then have "s = hhmm ?h ?m"
    unfolding s hhmm_def using inv [OF da] inv [OF db] inv [OF dd] inv [OF \<open>is_digit e\<close>] pat(2)
    by simp
  with c h24 m60 show ?thesis
    using Number_pair [OF da db] Number_pair [OF dd \<open>is_digit e\<close>] by blast
qed

lemma resolveStatus_parsed:
  assumes "parseCutoffTime cutoffTime = Some \<lparr>hour = Num h, minute = Num m\<rparr>"
    and "getLocalTimeParts P (capturedAt item) (timezone item) = \<lparr>hour = Num H, minute = Num M\<rparr>"
  shows "resolveStatus P item cutoffTime = (if H < h \<or> (H = h \<and> M \<le> m) then On_time else Late)"
  using assms by (simp add: resolveStatus_def)

lemma getLocalTimeParts_in_zone:
  assumes "Date_parse P isoString = Some date" and "formatInZone P z date = Some parts"
  shows "getLocalTimeParts P isoString (Some z) = parts_time parts"
  using assms by (simp add: getLocalTimeParts_def)

lemma lex_minutes:
  fixes H M h m :: nat
  assumes "M < 60" and "m < 60"
  shows "(H < h \<or> (H = h \<and> M \<le> m)) = (60 * H + M \<le> 60 * h + m)"
  using assms by arith

text \<open>
  Claim C1. Take a record whose timestamp is a valid date and whose zone \<open>z\<close> the
  formatter knows, so that the wall clock of the capture instant in \<open>z\<close> reads hour
  \<open>H\<close> and minute \<open>M\<close>, and any cutoff \<open>h:m\<close> written as HH:mm (\<open>h < 24\<close>,
  \<open>m < 60\<close>). Then the record is on time when \<open>H < h\<close>, on time when \<open>H = h\<close> and
  \<open>M \<le> m\<close> (the boundary minute included), and late otherwise; with \<open>M < 60\<close> that is
  exactly: on time iff the wall-clock time of day is at or before the cutoff.
\<close>

theorem resolveStatus_on_time_iff:
  assumes "h < 24" and "m < 60"
    and "Date_parse P (capturedAt item) = Some date"
    and "timezone item = Some z"
    and "formatInZone P z date = Some parts"
    and "Number_str (part_value ''hour'' parts) = Num H"
    and "Number_str (part_value ''minute'' parts) = Num M"
  shows "resolveStatus P item (hhmm h m) = (if H < h \<or> (H = h \<and> M \<le> m) then On_time else Late)
       \<and> (M < 60 \<longrightarrow> (resolveStatus P item (hhmm h m) = On_time) = (60 * H + M \<le> 60 * h + m))"
proof -
  have t: "getLocalTimeParts P (capturedAt item) (timezone item) = \<lparr>hour = Num H, minute = Num M\<rparr>"
    using getLocalTimeParts_in_zone [OF assms(3,5)] assms(4,6,7) by (simp add: parts_time_def)
  have r: "resolveStatus P item (hhmm h m) = (if H < h \<or> (H = h \<and> M \<le> m) then On_time else Late)"
    by (rule resolveStatus_parsed [OF parseCutoffTime_hhmm [OF assms(1,2)] t])
  show ?thesis
    using r lex_minutes [of M m H h] assms(2) by simp
qed

theorem resolveStatus_on_time_iff_witness:
  "resolveStatus (fixed_clock ''07'' ''59'') sample_record ''08:00'' = On_time
   \<and> resolveStatus (fixed_clock ''08'' ''00'') sample_record ''08:00'' = On_time
   \<and> resolveStatus (fixed_clock ''08'' ''01'') sample_record ''08:00'' = Late
   \<and> resolveStatus (fixed_clock ''09'' ''00'') sample_record ''08:00'' = Late"
proof -
  have c: "hhmm 8 0 = ''08:00''"
    by (simp add: hhmm_def digit_char_def)
  have n: "Number_str ''07'' = Num 7" "Number_str ''08'' = Num 8" "Number_str ''09'' = Num 9"
    "Number_str ''59'' = Num 59" "Number_str ''00'' = Num 0" "Number_str ''01'' = Num 1"
    by (simp_all add: Number_str_def dec_val_def digit_val_def is_digit_def)
  have w: "resolveStatus (fixed_clock hh mm) sample_record (hhmm 8 0)
      = (if H < 8 \<or> (H = 8 \<and> M \<le> 0) then On_time else Late)"
    if "Number_str hh = Num H" and "Number_str mm = Num M" for hh mm H M
    using resolveStatus_on_time_iff [of 8 0 "fixed_clock hh mm" sample_record 0
        "''Africa/Lagos''" "[(''hour'', hh), (''literal'', '':''), (''minute'', mm)]" H M] that
    by (simp add: fixed_clock_def sample_record_def part_value_def)
  show ?thesis
    using w [OF n(1) n(4)] w [OF n(2) n(5)] w [OF n(2) n(6)] w [OF n(3) n(5)]
    by (simp add: c)
qed

text \<open>
  Claim C10. The resolver answers for every pair of strings: a cutoff that does not match
  the HH:mm pattern classifies exactly as the cutoff \<^verbatim>\<open>08:00\<close> does, a timestamp that
  is not a date reads as the wall clock 00:00, and a record with such a timestamp is on
  time whatever the cutoff string is.
\<close>

theorem resolveStatus_silent_defaults:
  "(parseCutoffTime cutoffTime = None \<longrightarrow>
      resolveStatus P item cutoffTime = resolveStatus P item ''08:00'')
   \<and> (Date_parse P (capturedAt item) = None \<longrightarrow>
      getLocalTimeParts P (capturedAt item) (timezone item) = \<lparr>hour = Num 0, minute = Num 0\<rparr>
      \<and> resolveStatus P item cutoffTime = On_time)"
proof -
  have eight: "parseCutoffTime ''08:00'' = Some \<lparr>hour = Num 8, minute = Num 0\<rparr>"
    using parseCutoffTime_hhmm [of 8 0] by (simp add: hhmm_def digit_char_def)
  have a: "resolveStatus P item cutoffTime = resolveStatus P item ''08:00''"
    if "parseCutoffTime cutoffTime = None"
    using that eight by (simp add: resolveStatus_def)
  have b: "getLocalTimeParts P (capturedAt item) (timezone item) = \<lparr>hour = Num 0, minute = Num 0\<rparr>"
    if "Date_parse P (capturedAt item) = None"
    using that by (simp add: getLocalTimeParts_def)
  have c: "resolveStatus P item cutoffTime = On_time"
    if d: "Date_parse P (capturedAt item) = None"
  proof (cases "parseCutoffTime cutoffTime")
    case None
    then show ?thesis using b [OF d] by (simp add: resolveStatus_def)
  next
    case (Some c)
    from parseCutoffTime_Some [OF Some] obtain h m where "c = \<lparr>hour = Num h, minute = Num m\<rparr>"
      by blast
    with Some have "resolveStatus P item cutoffTime
        = (if 0 < h \<or> (0 = h \<and> 0 \<le> m) then On_time else Late)"
      using resolveStatus_parsed [of cutoffTime h m P item 0 0] b [OF d] by simp
    then show ?thesis by auto
  qed
  from a b c show ?thesis by blast
qed

theorem resolveStatus_silent_defaults_witness:
  "parseCutoffTime ''8 am'' = None
   \<and> resolveStatus (fixed_clock ''08'' ''01'') sample_record ''8 am''
     = resolveStatus (fixed_clock ''08'' ''01'') sample_record ''08:00''
   \<and> Date_parse (fixed_clock ''23'' ''59'') (capturedAt (sample_record\<lparr>capturedAt := []\<rparr>)) = None
   \<and> resolveStatus (fixed_clock ''23'' ''59'') (sample_record\<lparr>capturedAt := []\<rparr>) ''00:00'' = On_time"
proof -
  have p: "parseCutoffTime ''8 am'' = None"
    by (simp add: parseCutoffTime_def)
  have d: "Date_parse (fixed_clock ''23'' ''59'') (capturedAt (sample_record\<lparr>capturedAt := []\<rparr>)) = None"
    by (simp add: fixed_clock_def)
  show ?thesis
    using p d
      resolveStatus_silent_defaults [of "''8 am''" "fixed_clock ''08'' ''01''" sample_record]
      resolveStatus_silent_defaults [of "''00:00''" "fixed_clock ''23'' ''59''"
        "sample_record\<lparr>capturedAt := []\<rparr>"]
    by simp
qed

text \<open>
  Claim C8, as stated, read on the admin table: a record that carries a stored status
  would show that status. It does not: a record stored as late, captured at 07:00 on its
  own wall clock, shows On time under the cutoff 08:00, while the history table shows
  Late for the same record.
\<close>

theorem attendanceRow_status_counterexample:
  "status sample_record = Some late
   \<and> history_status sample_record = Late
   \<and> attendanceRow_status (fixed_clock ''07'' ''00'') ''08:00'' sample_record = On_time"
  by (simp add: sample_record_def history_status_def statusLabel_def attendanceRow_status_def
      resolveStatus_def parseCutoffTime_def getLocalTimeParts_def fixed_clock_def parts_time_def
      part_value_def Number_str_def dec_val_def digit_val_def is_digit_def)

text \<open>
  Claim C8, amended. The admin table recomputes every row's status from the cutoff
  currently configured, whatever status the record carries; the per-user history table
  shows the stored status (Late for \<^verbatim>\<open>"late"\<close>, On time for anything else) and never
  recomputes it: no cutoff and no date service enters it.
\<close>

theorem status_by_view:
  "attendanceRow_status P cutoffTime (item\<lparr>status := st\<rparr>) = resolveStatus P item cutoffTime
   \<and> history_status (item\<lparr>status := st, capturedAt := c, timezone := z\<rparr>)
     = (if st = Some late then Late else On_time)"
  by (simp add: attendanceRow_status_def resolveStatus_def history_status_def statusLabel_def)

section \<open>Properties of the location ladder\<close>

lemma floor_rat_numeral: "\<lfloor>(numeral a / numeral b :: rat)\<rfloor> = numeral a div numeral b"
  by (metis floor_divide_of_int_eq of_int_numeral)

lemma nat_digits_numeral:
  "nat_digits (numeral k) =
     (if numeral k < (10::nat) then [digit_char (numeral k)]
      else nat_digits (numeral k div 10) @ [digit_char (numeral k mod 10)])"
  by (rule nat_digits.simps)

lemma nat_digits_small: "nat_digits 0 = ''0''" "nat_digits (Suc 0) = ''1''"
  by (subst nat_digits.simps, simp add: digit_char_def)+

lemma replicate_numeral: "replicate (numeral k) x = x # replicate (pred_numeral k) x"
  by (simp add: numeral_eq_Suc)

lemmas eval_number = nat_digits_numeral nat_digits_small replicate_numeral digit_char_def floor_rat_numeral


lemma getDeviceLocation_ready:
  assumes "ready B"
  shows "getDeviceLocation B =
    (case getCurrentPosition B tier1 of
       Inr p \<Rightarrow> ([GetCurrentPosition tier1], Inr (formatPosition B p))
     | Inl e1 \<Rightarrow>
         if isRetryableError e1 then
           (case watchPosition B tier2 of
              Inr p \<Rightarrow> ([GetCurrentPosition tier1, WatchPosition tier2, ClearWatch],
                         Inr (formatPosition B p))
            | Inl e2 \<Rightarrow>
                if isRetryableError e2 then
                  ([GetCurrentPosition tier1, WatchPosition tier2, ClearWatch,
                    GetCurrentPosition tier3],
                   case getCurrentPosition B tier3 of
                     Inr p \<Rightarrow> Inr (formatPosition B p)
                   | Inl e3 \<Rightarrow> Inl (mapGeoError e3))
                else ([GetCurrentPosition tier1, WatchPosition tier2, ClearWatch],
                      Inl (mapGeoError e2)))
         else ([GetCurrentPosition tier1], Inl (mapGeoError e1)))"
  using assms
  by (simp add: getDeviceLocation_def ready_def getPosition_def getPositionWithWatch_def
      split: sum.splits)

lemma getDeviceLocation_not_ready:
  assumes "\<not> ready B"
  shows "fst (getDeviceLocation B) = []" and "\<exists>msg. snd (getDeviceLocation B) = Inl msg"
  using assms by (auto simp: getDeviceLocation_def ready_def)

text \<open>
  Claim C2. Once the guards have passed, a permission-denied rejection (code 1) ends the
  run at the tier where it happens, with the permission-denied message: at tier 1 the only
  call issued is the first request; at tier 2 the calls are the first request, the watch
  and its clearing, and the third request is not issued; at tier 3 nothing follows anyway.
\<close>

theorem permission_denied_aborts:
  assumes "ready B"
  shows "(getCurrentPosition B tier1 = Inl (Object (Some PERMISSION_DENIED) m1) \<longrightarrow>
            getDeviceLocation B =
              ([GetCurrentPosition tier1],
               Inl ''Location permission denied. Please allow location access and retry.''))
       \<and> (getCurrentPosition B tier1 = Inl e1 \<and> isRetryableError e1
            \<and> watchPosition B tier2 = Inl (Object (Some PERMISSION_DENIED) m2) \<longrightarrow>
            getDeviceLocation B =
              ([GetCurrentPosition tier1, WatchPosition tier2, ClearWatch],
               Inl ''Location permission denied. Please allow location access and retry.''))
       \<and> (getCurrentPosition B tier1 = Inl e1 \<and> isRetryableError e1
            \<and> watchPosition B tier2 = Inl e2 \<and> isRetryableError e2
            \<and> getCurrentPosition B tier3 = Inl (Object (Some PERMISSION_DENIED) m3) \<longrightarrow>
            getDeviceLocation B =
              ([GetCurrentPosition tier1, WatchPosition tier2, ClearWatch, GetCurrentPosition tier3],
               Inl ''Location permission denied. Please allow location access and retry.''))"
  by (simp add: getDeviceLocation_ready [OF assms])

theorem permission_denied_aborts_witness:
  "ready (test_browser (Inl (Object (Some 1) True)) (Inr sample_fix) (Inr sample_fix))
   \<and> getDeviceLocation (test_browser (Inl (Object (Some 1) True)) (Inr sample_fix) (Inr sample_fix))
     = ([GetCurrentPosition tier1],
        Inl ''Location permission denied. Please allow location access and retry.'')
   \<and> ready (test_browser (Inl (Object (Some 3) True)) (Inl (Object (Some 1) True)) (Inr sample_fix))
   \<and> getDeviceLocation
       (test_browser (Inl (Object (Some 3) True)) (Inl (Object (Some 1) True)) (Inr sample_fix))
     = ([GetCurrentPosition tier1, WatchPosition tier2, ClearWatch],
        Inl ''Location permission denied. Please allow location access and retry.'')
   \<and> getDeviceLocation
       (test_browser (Inl (Object (Some 3) True)) (Inl (Object (Some 2) True))
          (Inl (Object (Some 1) True)))
     = ([GetCurrentPosition tier1, WatchPosition tier2, ClearWatch, GetCurrentPosition tier3],
        Inl ''Location permission denied. Please allow location access and retry.'')"
proof -
  let ?A = "test_browser (Inl (Object (Some 1) True)) (Inr sample_fix) (Inr sample_fix)"
  let ?B = "test_browser (Inl (Object (Some 3) True)) (Inl (Object (Some 1) True)) (Inr sample_fix)"
  let ?C = "test_browser (Inl (Object (Some 3) True)) (Inl (Object (Some 2) True))
              (Inl (Object (Some 1) True))"
  have a: "ready ?A" and b: "ready ?B" and c: "ready ?C"
    by (simp_all add: ready_def test_browser_def)
  have c1: "getCurrentPosition ?C tier1 = Inl (Object (Some 3) True)
      \<and> isRetryableError (Object (Some 3) True)
      \<and> watchPosition ?C tier2 = Inl (Object (Some 2) True)
      \<and> isRetryableError (Object (Some 2) True)
      \<and> getCurrentPosition ?C tier3 = Inl (Object (Some 1) True)"
    by (simp add: test_browser_def)
  have a1: "getCurrentPosition ?A tier1 = Inl (Object (Some 1) True)"
    by (simp add: test_browser_def)
  have b1: "getCurrentPosition ?B tier1 = Inl (Object (Some 3) True)
      \<and> isRetryableError (Object (Some 3) True)
      \<and> watchPosition ?B tier2 = Inl (Object (Some 1) True)"
    by (simp add: test_browser_def)
  show ?thesis
    using a b a1 b1 c1 permission_denied_aborts [OF a, of True]
      permission_denied_aborts [OF b, of _ "Object (Some 3) True" True]
      permission_denied_aborts [OF c, of _ "Object (Some 3) True" _ "Object (Some 2) True" True]
    by blast
qed



text \<open>
  Claim C7. Whatever the browser answers, the calls of a run are an initial part of one
  fixed sequence: a single-shot request for a high-accuracy fix with a timeout of 12000 ms
  and maximum age 0; a watch for a high-accuracy fix with a timeout of 20000 ms and
  maximum age 0, cleared once; a single-shot request for a low-accuracy fix with a timeout
  of 20000 ms and maximum age 60000 ms. A run whose first two tiers fail retryably issues
  all of them.
\<close>

theorem tier_parameters:
  "fst (getDeviceLocation B) \<in>
     {[],
      [GetCurrentPosition \<lparr>enableHighAccuracy = True, timeout = 12000, maximumAge = 0\<rparr>],
      [GetCurrentPosition \<lparr>enableHighAccuracy = True, timeout = 12000, maximumAge = 0\<rparr>,
       WatchPosition \<lparr>enableHighAccuracy = True, timeout = 20000, maximumAge = 0\<rparr>,
       ClearWatch],
      [GetCurrentPosition \<lparr>enableHighAccuracy = True, timeout = 12000, maximumAge = 0\<rparr>,
       WatchPosition \<lparr>enableHighAccuracy = True, timeout = 20000, maximumAge = 0\<rparr>,
       ClearWatch,
       GetCurrentPosition \<lparr>enableHighAccuracy = False, timeout = 20000, maximumAge = 60000\<rparr>]}
   \<and> (ready B \<longrightarrow>
        take 1 (fst (getDeviceLocation B))
          = [GetCurrentPosition \<lparr>enableHighAccuracy = True, timeout = 12000, maximumAge = 0\<rparr>])
   \<and> (ready B
        \<and> getCurrentPosition B \<lparr>enableHighAccuracy = True, timeout = 12000, maximumAge = 0\<rparr> = Inl e1
        \<and> isRetryableError e1
        \<and> watchPosition B \<lparr>enableHighAccuracy = True, timeout = 20000, maximumAge = 0\<rparr> = Inl e2
        \<and> isRetryableError e2 \<longrightarrow>
        fst (getDeviceLocation B) =
          [GetCurrentPosition \<lparr>enableHighAccuracy = True, timeout = 12000, maximumAge = 0\<rparr>,
           WatchPosition \<lparr>enableHighAccuracy = True, timeout = 20000, maximumAge = 0\<rparr>,
           ClearWatch,
           GetCurrentPosition \<lparr>enableHighAccuracy = False, timeout = 20000, maximumAge = 60000\<rparr>])"
proof (cases "ready B")
  case True
  show ?thesis
    by (simp add: getDeviceLocation_ready [OF True] split: sum.splits)
next
  case False
  then show ?thesis
    by (simp add: getDeviceLocation_not_ready)
qed

theorem tier_parameters_witness:
  "ready (test_browser (Inl (Object (Some 3) True)) (Inl (Object (Some 2) True)) (Inr sample_fix))
   \<and> fst (getDeviceLocation
        (test_browser (Inl (Object (Some 3) True)) (Inl (Object (Some 2) True)) (Inr sample_fix)))
     = [GetCurrentPosition \<lparr>enableHighAccuracy = True, timeout = 12000, maximumAge = 0\<rparr>,
        WatchPosition \<lparr>enableHighAccuracy = True, timeout = 20000, maximumAge = 0\<rparr>,
        ClearWatch,
        GetCurrentPosition \<lparr>enableHighAccuracy = False, timeout = 20000, maximumAge = 60000\<rparr>]"
proof -
  let ?A = "test_browser (Inl (Object (Some 3) True)) (Inl (Object (Some 2) True)) (Inr sample_fix)"
  have a: "ready ?A"
    by (simp add: ready_def test_browser_def)
  have a1: "getCurrentPosition ?A tier1 = Inl (Object (Some 3) True)"
    "watchPosition ?A tier2 = Inl (Object (Some 2) True)"
    "isRetryableError (Object (Some 3) True)" "isRetryableError (Object (Some 2) True)"
    by (simp_all add: test_browser_def)
  show ?thesis
    using a a1 tier_parameters [of ?A "Object (Some 3) True" "Object (Some 2) True"]
    by blast
qed


lemma dec_val_snoc: "dec_val (xs @ [c]) = 10 * dec_val xs + digit_val c"
  by (simp add: dec_val_def)

lemma dec_val_append: "dec_val (xs @ ys) = dec_val xs * 10 ^ length ys + dec_val ys"
proof (induction ys rule: rev_induct)
  case Nil
  show ?case by (simp add: dec_val_def)
next
  case (snoc y ys)
  have "dec_val (xs @ ys @ [y]) = 10 * dec_val (xs @ ys) + digit_val y"
    using dec_val_snoc [of "xs @ ys" y] by simp
  also have "\<dots> = dec_val xs * 10 ^ length (ys @ [y]) + (10 * dec_val ys + digit_val y)"
    by (simp add: snoc.IH algebra_simps)
  finally show ?case by (simp add: dec_val_snoc)
qed

lemma dec_val_zeros: "dec_val (replicate k (CHR ''0'') @ m) = dec_val m"
proof -
  have "dec_val (replicate k (CHR ''0'')) = 0"
  proof (induction k)
    case 0
    show ?case by (simp add: dec_val_def)
  next
    case (Suc k)
    have "dec_val (replicate (Suc k) (CHR ''0'')) = dec_val (replicate k (CHR ''0'') @ [CHR ''0''])"
      by (simp add: replicate_append_same)
    also have "\<dots> = 10 * dec_val (replicate k (CHR ''0'')) + digit_val (CHR ''0'')"
      by (rule dec_val_snoc)
    finally show ?case
      using Suc by (simp add: digit_val_def)
  qed
  then show ?thesis by (simp add: dec_val_append)
qed

lemma nat_digits_digits: "list_all is_digit (nat_digits n)"
proof (induction n rule: nat_digits.induct)
  case (1 n)
  show ?case
  proof (cases "n < 10")
    case True
    then show ?thesis
      by (subst nat_digits.simps) (simp add: digit_char_digit)
  next
    case False
    have "is_digit (digit_char (n mod 10))"
      by (rule digit_char_digit) simp
    with False "1.IH" show ?thesis
      by (subst nat_digits.simps) simp
  qed
qed

lemma dec_val_nat_digits: "dec_val (nat_digits n) = n"
proof (induction n rule: nat_digits.induct)
  case (1 n)
  show ?case
  proof (cases "n < 10")
    case True
    then show ?thesis
      by (subst nat_digits.simps) (simp add: dec_val_def digit_char_digit)
  next
    case False
    have "digit_val (digit_char (n mod 10)) = n mod 10"
      by (rule digit_char_digit) simp
    with False "1.IH" show ?thesis
      by (subst nat_digits.simps) (simp add: dec_val_snoc)
  qed
qed

lemma nat_digits_nonempty: "nat_digits n \<noteq> []"
  by (subst nat_digits.simps) simp

lemma is_digit_not_punct:
  assumes "is_digit c"
  shows "c \<noteq> CHR ''.''" and "c \<noteq> CHR ''-''"
  using assms by (auto simp: is_digit_def)

lemma fixed_value_point:
  assumes "list_all is_digit a" and "a \<noteq> []"
  shows "fixed_value (a @ ''.'' @ b) = of_nat (dec_val a) + of_nat (dec_val b) / 10 ^ length b"
proof -
  from assms obtain c cs where a: "a = c # cs" and c: "is_digit c"
    by (cases a) auto
  have nm: "(take 1 (a @ ''.'' @ b) = ''-'') = False"
    using is_digit_not_punct(2) [OF c] by (simp add: a)
  have "\<And>x. x \<in> set a \<Longrightarrow> x \<noteq> CHR ''.''"
    using assms(1) is_digit_not_punct(1) by (auto simp: list_all_iff)
  then have tw: "takeWhile (\<lambda>c. c \<noteq> CHR ''.'') (a @ ''.'' @ b) = a"
    by (simp add: takeWhile_append2)
  have dr: "drop (length a + 1) (a @ ''.'' @ b) = b"
    by simp
  show ?thesis
    unfolding fixed_value_def Let_def nm if_False tw dr by (rule refl)
qed

text \<open>The digits of \<open>n\<close>, padded and pointed as \<^verbatim>\<open>toFixed\<close> does, read as \<open>n / 10\<^sup>f\<close>.\<close>

lemma pointed_value:
  assumes z: "z = (if length m \<le> f then replicate (f + 1 - length m) (CHR ''0'') @ m else m)"
    and m: "m = nat_digits n"
  shows "fixed_value (take (length z - f) z @ ''.'' @ drop (length z - f) z) = of_nat n / 10 ^ f"
    and "take 1 (take (length z - f) z @ ''.'' @ drop (length z - f) z) \<noteq> ''-''"
proof -
  let ?a = "take (length z - f) z" and ?b = "drop (length z - f) z"
  have dz: "list_all is_digit z"
    unfolding z m using nat_digits_digits [of n]
    by (simp add: list_all_iff is_digit_def)
  have vz: "dec_val z = n"
    unfolding z m by (simp add: dec_val_zeros dec_val_nat_digits)
  have lz: "f < length z"
    unfolding z m using nat_digits_nonempty [of n] by (cases "nat_digits n") auto
  then have lb: "length ?b = f" by simp
  have a_ne: "?a \<noteq> []" using lz by auto
  have da: "list_all is_digit ?a"
    using dz by (auto simp: list_all_iff dest: in_set_takeD)
  from a_ne da obtain c cs where a: "?a = c # cs" and c: "is_digit c"
    by (cases ?a) auto
  show "take 1 (?a @ ''.'' @ ?b) \<noteq> ''-''"
    unfolding a using is_digit_not_punct(2) [OF c] by simp
  have "dec_val ?a * 10 ^ f + dec_val ?b = n"
    using dec_val_append [of ?a ?b] lb vz by simp
  then have "(of_nat (dec_val ?a) :: rat) * 10 ^ f + of_nat (dec_val ?b) = of_nat n"
    by (metis of_nat_add of_nat_mult of_nat_numeral of_nat_power)
  then have "(of_nat (dec_val ?a) :: rat) + of_nat (dec_val ?b) / 10 ^ f = of_nat n / 10 ^ f"
    by (simp add: field_simps)
  then show "fixed_value (?a @ ''.'' @ ?b) = of_nat n / 10 ^ f"
    unfolding fixed_value_point [OF da a_ne] lb .
qed

lemma fixed_value_minus:
  assumes "take 1 s \<noteq> ''-''"
  shows "fixed_value (''-'' @ s) = - fixed_value s"
  using assms by (simp add: fixed_value_def Let_def)

lemma round_half_close:
  fixes y :: rat
  assumes "0 \<le> y"
  shows "\<bar>of_nat (nat \<lfloor>y + 1 / 2\<rfloor>) - y\<bar> \<le> 1 / 2"
proof -
  have "0 \<le> \<lfloor>y + 1 / 2\<rfloor>" using assms by simp
  then have "(of_nat (nat \<lfloor>y + 1 / 2\<rfloor>) :: rat) = of_int \<lfloor>y + 1 / 2\<rfloor>" by simp
  moreover have "of_int \<lfloor>y + 1 / 2\<rfloor> \<le> y + 1 / 2" "y + 1 / 2 < of_int \<lfloor>y + 1 / 2\<rfloor> + 1"
    by linarith+
  ultimately show ?thesis by linarith
qed

lemma Math_round_close: "\<bar>of_int (Math_round x) - x\<bar> \<le> 1 / 2"
  unfolding Math_round_def by linarith

text \<open>
  Below \<open>10\<^sup>2\<^sup>1\<close>, \<^verbatim>\<open>toFixed\<close> with \<open>f > 0\<close> digits writes a number that differs from
  its argument by at most half a unit of the last digit.
\<close>

lemma toFixed_close:
  assumes "\<bar>x\<bar> < 10 ^ 21" and "0 < f"
  shows "\<bar>fixed_value (toFixed toStr x f) - x\<bar> \<le> 1 / (2 * 10 ^ f)"
proof -
  define n where "n = nat \<lfloor>\<bar>x\<bar> * 10 ^ f + 1 / 2\<rfloor>"
  define m where "m = nat_digits n"
  define z where "z = (if length m \<le> f then replicate (f + 1 - length m) (CHR ''0'') @ m else m)"
  define body where "body = take (length z - f) z @ ''.'' @ drop (length z - f) z"
  have v: "fixed_value body = of_nat n / 10 ^ f"
    unfolding body_def by (rule pointed_value(1) [OF z_def m_def])
  have body_first: "take 1 body \<noteq> ''-''"
    unfolding body_def by (rule pointed_value(2) [OF z_def m_def])
  have tf: "toFixed toStr x f = (if x < 0 then ''-'' else []) @ body"
    using assms by (simp add: toFixed_def Let_def n_def m_def z_def body_def)
  have half: "\<bar>of_nat n - \<bar>x\<bar> * 10 ^ f\<bar> \<le> 1 / 2"
    unfolding n_def by (rule round_half_close) simp
  have ad: "\<bar>u / 10 ^ f\<bar> = \<bar>u\<bar> / 10 ^ f" for u :: rat
    by (simp add: abs_divide)
  have eq: "of_nat n / 10 ^ f - \<bar>x\<bar> = (of_nat n - \<bar>x\<bar> * 10 ^ f) / 10 ^ f"
    by (simp add: diff_divide_distrib)
  have "\<bar>of_nat n / 10 ^ f - \<bar>x\<bar>\<bar> = \<bar>of_nat n - \<bar>x\<bar> * 10 ^ f\<bar> / 10 ^ f"
    unfolding eq by (rule ad)
  also have "\<dots> \<le> (1 / 2) / 10 ^ f"
    using half by (rule divide_right_mono) simp
  also have "\<dots> = 1 / (2 * 10 ^ f)"
    by simp
  finally have close: "\<bar>of_nat n / 10 ^ f - \<bar>x\<bar>\<bar> \<le> 1 / (2 * 10 ^ f)" .
  show ?thesis
  proof (cases "x < 0")
    case True
    then have "fixed_value (toFixed toStr x f) = - (of_nat n / 10 ^ f)"
      using tf v fixed_value_minus [OF body_first] by simp
    with close True show ?thesis by simp
  next
    case False
    then have "fixed_value (toFixed toStr x f) = of_nat n / 10 ^ f"
      using tf v by simp
    with close False show ?thesis by simp
  qed
qed

lemma digit_char_zero:
  assumes "d < 10" and "digit_char d = CHR ''0''"
  shows "d = 0"
  using digit_char_cases [OF assms(1)] assms(2) by (auto simp: digit_char_def)

lemma nat_digits_leading:
  assumes "hd (nat_digits n) = CHR ''0''"
  shows "nat_digits n = ''0''"
  using assms
proof (induction n rule: nat_digits.induct)
  case (1 n)
  show ?case
  proof (cases "n < 10")
    case True
    with "1.prems" have "digit_char n = CHR ''0''"
      by (subst (asm) nat_digits.simps) simp
    with True have "n = 0" by (rule digit_char_zero)
    then show ?thesis by (simp add: nat_digits_small)
  next
    case False
    have ne: "nat_digits (n div 10) \<noteq> []" by (rule nat_digits_nonempty)
    from False "1.prems" have "hd (nat_digits (n div 10)) = CHR ''0''"
      by (subst (asm) nat_digits.simps) (simp add: ne)
    with False "1.IH" have "nat_digits (n div 10) = ''0''" by simp
    then have "dec_val (nat_digits (n div 10)) = 0"
      by (simp add: dec_val_def digit_val_def)
    then have "n div 10 = 0" by (simp add: dec_val_nat_digits)
    with False show ?thesis by simp
  qed
qed

text \<open>
  Below \<open>2\<^sup>5\<^sup>3\<close> the text of an integer in a template literal is a minus sign for a
  negative one, then digits without a leading zero that read as its magnitude.
\<close>

lemma template_int_reading:
  assumes "\<bar>i\<bar> < 2 ^ 53"
  shows "\<exists>ds. template_int toStr i = (if i < 0 then ''-'' else []) @ ds
     \<and> ds \<noteq> [] \<and> list_all is_digit ds \<and> int (dec_val ds) = \<bar>i\<bar>
     \<and> (hd ds = CHR ''0'' \<longrightarrow> ds = ''0'')"
proof -
  let ?ds = "nat_digits (nat \<bar>i\<bar>)"
  have "template_int toStr i = (if i < 0 then ''-'' else []) @ ?ds"
    using assms by (simp add: template_int_def)
  moreover have "?ds \<noteq> []" by (rule nat_digits_nonempty)
  moreover have "list_all is_digit ?ds" by (rule nat_digits_digits)
  moreover have "int (dec_val ?ds) = \<bar>i\<bar>" by (simp add: dec_val_nat_digits)
  moreover have "hd ?ds = CHR ''0'' \<longrightarrow> ?ds = ''0''"
    using nat_digits_leading by blast
  ultimately show ?thesis by blast
qed

text \<open>
  Below \<open>10\<^sup>2\<^sup>1\<close>, \<^verbatim>\<open>toFixed\<close> with \<open>f > 0\<close> writes a minus sign for a negative
  number, at least one digit, a point, and exactly \<open>f\<close> digits.
\<close>

lemma toFixed_shape:
  assumes "\<bar>x\<bar> < 10 ^ 21" and "0 < f"
  shows "\<exists>a b. toFixed toStr x f = (if x < 0 then ''-'' else []) @ a @ ''.'' @ b
     \<and> a \<noteq> [] \<and> list_all is_digit a \<and> list_all is_digit b \<and> length b = f"
proof -
  define n where "n = nat \<lfloor>\<bar>x\<bar> * 10 ^ f + 1 / 2\<rfloor>"
  define m where "m = nat_digits n"
  define z where "z = (if length m \<le> f then replicate (f + 1 - length m) (CHR ''0'') @ m else m)"
  let ?a = "take (length z - f) z" and ?b = "drop (length z - f) z"
  have tf: "toFixed toStr x f = (if x < 0 then ''-'' else []) @ ?a @ ''.'' @ ?b"
    using assms by (simp add: toFixed_def Let_def n_def m_def z_def)
  have dz: "list_all is_digit z"
    unfolding z_def m_def using nat_digits_digits [of n]
    by (simp add: list_all_iff is_digit_def)
  have lz: "f < length z"
    unfolding z_def m_def using nat_digits_nonempty [of n] by (cases "nat_digits n") auto
  have "?a \<noteq> []" using lz by auto
  moreover have "list_all is_digit ?a"
    using dz by (auto simp: list_all_iff dest: in_set_takeD)
  moreover have "list_all is_digit ?b"
    using dz by (auto simp: list_all_iff dest: in_set_dropD)
  moreover have "length ?b = f" using lz by simp
  ultimately show ?thesis using tf by blast
qed

text \<open>
  Claim C9. Every position a run returns was formatted from a fix that one of the three
  requests delivered: its source is \<open>gps\<close>; its accuracy is the fix's accuracy rounded to
  the nearest integer; its coordinates are the fix's, unrounded; its label is
  \<^verbatim>\<open>GPS\<close>, the latitude and the longitude each written by \<^verbatim>\<open>toFixed(5)\<close>, and the
  rounded accuracy between \<^verbatim>\<open>(+/-\<close> and \<^verbatim>\<open>m)\<close>. Below \<open>10\<^sup>2\<^sup>1\<close> a written
  coordinate is a sign, digits, a point and exactly five digits, and reads within half of
  \<open>10\<^sup>-\<^sup>5\<close> of the fix's. Below \<open>2\<^sup>5\<^sup>3\<close> the written accuracy is a sign and digits
  without a leading zero that read as the rounded accuracy.
\<close>

theorem successful_fix_position:
  assumes "snd (getDeviceLocation B) = Inr r"
  shows "\<exists>p. Inr p \<in> {getCurrentPosition B tier1, watchPosition B tier2, getCurrentPosition B tier3}
     \<and> source r = gps
     \<and> accuracy r = Some (of_int (Math_round (coords_accuracy p)))
     \<and> \<bar>of_int (Math_round (coords_accuracy p)) - coords_accuracy p\<bar> \<le> 1 / 2
     \<and> latitude r = coords_latitude p
     \<and> longitude r = coords_longitude p
     \<and> label r = ''GPS '' @ toFixed (Number_toString B) (coords_latitude p) 5 @ '', ''
         @ toFixed (Number_toString B) (coords_longitude p) 5 @ '' (+/-''
         @ template_int (Number_toString B) (Math_round (coords_accuracy p)) @ ''m)''
     \<and> (\<bar>coords_latitude p\<bar> < 10 ^ 21 \<longrightarrow>
          \<bar>fixed_value (toFixed (Number_toString B) (coords_latitude p) 5) - coords_latitude p\<bar>
            \<le> 1 / 200000)
     \<and> (\<bar>coords_longitude p\<bar> < 10 ^ 21 \<longrightarrow>
          \<bar>fixed_value (toFixed (Number_toString B) (coords_longitude p) 5) - coords_longitude p\<bar>
            \<le> 1 / 200000)
     \<and> (\<bar>coords_latitude p\<bar> < 10 ^ 21 \<longrightarrow>
          (\<exists>a b. toFixed (Number_toString B) (coords_latitude p) 5
                   = (if coords_latitude p < 0 then ''-'' else []) @ a @ ''.'' @ b
             \<and> a \<noteq> [] \<and> list_all is_digit a \<and> list_all is_digit b \<and> length b = 5))
     \<and> (\<bar>coords_longitude p\<bar> < 10 ^ 21 \<longrightarrow>
          (\<exists>a b. toFixed (Number_toString B) (coords_longitude p) 5
                   = (if coords_longitude p < 0 then ''-'' else []) @ a @ ''.'' @ b
             \<and> a \<noteq> [] \<and> list_all is_digit a \<and> list_all is_digit b \<and> length b = 5))
     \<and> (\<bar>Math_round (coords_accuracy p)\<bar> < 2 ^ 53 \<longrightarrow>
          (\<exists>ds. template_int (Number_toString B) (Math_round (coords_accuracy p))
                  = (if Math_round (coords_accuracy p) < 0 then ''-'' else []) @ ds
             \<and> ds \<noteq> [] \<and> list_all is_digit ds
             \<and> int (dec_val ds) = \<bar>Math_round (coords_accuracy p)\<bar>
             \<and> (hd ds = CHR ''0'' \<longrightarrow> ds = ''0'')))"
proof -
  have rdy: "ready B"
    using assms getDeviceLocation_not_ready(2) [of B] by auto
  from assms obtain p where
    p: "Inr p \<in> {getCurrentPosition B tier1, watchPosition B tier2, getCurrentPosition B tier3}"
    and r: "r = formatPosition B p"
    by (auto simp: getDeviceLocation_ready [OF rdy] split: sum.splits if_splits)
  have c: "\<bar>fixed_value (toFixed (Number_toString B) x 5) - x\<bar> \<le> 1 / 200000"
    if "\<bar>x\<bar> < 10 ^ 21" for x
    using toFixed_close [OF that, of 5 "Number_toString B"] by simp
  have sh: "\<exists>a b. toFixed (Number_toString B) x 5 = (if x < 0 then ''-'' else []) @ a @ ''.'' @ b
      \<and> a \<noteq> [] \<and> list_all is_digit a \<and> list_all is_digit b \<and> length b = 5"
    if "\<bar>x\<bar> < 10 ^ 21" for x
    using toFixed_shape [OF that, of 5 "Number_toString B"] by simp
  have basic: "source r = gps
     \<and> accuracy r = Some (of_int (Math_round (coords_accuracy p)))
     \<and> latitude r = coords_latitude p
     \<and> longitude r = coords_longitude p
     \<and> label r = ''GPS '' @ toFixed (Number_toString B) (coords_latitude p) 5 @ '', ''
         @ toFixed (Number_toString B) (coords_longitude p) 5 @ '' (+/-''
         @ template_int (Number_toString B) (Math_round (coords_accuracy p)) @ ''m)''"
    by (simp add: r formatPosition_def Let_def)
  show ?thesis
    using p basic c sh Math_round_close [of "coords_accuracy p"]
      template_int_reading [of "Math_round (coords_accuracy p)" "Number_toString B"]
    by (intro exI [of _ p]) blast
qed

theorem successful_fix_position_witness:
  "\<exists>r. snd (getDeviceLocation (test_browser (Inl (Object (Some 3) True)) (Inr sample_fix) (Inr sample_fix)))
          = Inr r
      \<and> label r = ''GPS 6.52438, -3.37921 (+/-12m)''
      \<and> accuracy r = Some 12
      \<and> source r = gps
      \<and> \<bar>fixed_value (toFixed (\<lambda>x. ''1e+21'') (coords_latitude sample_fix) 5)
           - coords_latitude sample_fix\<bar> \<le> 1 / 200000
      \<and> (\<exists>ds. template_int (\<lambda>x. ''1e+21'') 12 = ds \<and> list_all is_digit ds \<and> int (dec_val ds) = 12)"
proof -
  let ?B = "test_browser (Inl (Object (Some 3) True)) (Inr sample_fix) (Inr sample_fix)"
  let ?r = "formatPosition ?B sample_fix"
  have h: "snd (getDeviceLocation ?B) = Inr ?r"
    by (simp add: getDeviceLocation_def getPosition_def getPositionWithWatch_def test_browser_def)
  from successful_fix_position [OF h] obtain p where
    p: "Inr p \<in> {getCurrentPosition ?B tier1, watchPosition ?B tier2, getCurrentPosition ?B tier3}"
    and s: "source ?r = gps"
    and a: "accuracy ?r = Some (of_int (Math_round (coords_accuracy p)))"
    and l: "label ?r = ''GPS '' @ toFixed (Number_toString ?B) (coords_latitude p) 5 @ '', ''
         @ toFixed (Number_toString ?B) (coords_longitude p) 5 @ '' (+/-''
         @ template_int (Number_toString ?B) (Math_round (coords_accuracy p)) @ ''m)''"
    and v: "\<bar>coords_latitude p\<bar> < 10 ^ 21 \<longrightarrow>
          \<bar>fixed_value (toFixed (Number_toString ?B) (coords_latitude p) 5) - coords_latitude p\<bar>
            \<le> 1 / 200000"
    and t: "\<bar>Math_round (coords_accuracy p)\<bar> < 2 ^ 53 \<longrightarrow>
          (\<exists>ds. template_int (Number_toString ?B) (Math_round (coords_accuracy p))
                  = (if Math_round (coords_accuracy p) < 0 then ''-'' else []) @ ds
             \<and> ds \<noteq> [] \<and> list_all is_digit ds
             \<and> int (dec_val ds) = \<bar>Math_round (coords_accuracy p)\<bar>
             \<and> (hd ds = CHR ''0'' \<longrightarrow> ds = ''0''))"
    by blast
  from p have q: "p = sample_fix"
    by (simp add: test_browser_def)
  have ts: "Number_toString ?B = (\<lambda>x. ''1e+21'')"
    by (simp add: test_browser_def)
  have small: "\<bar>coords_latitude sample_fix\<bar> < 10 ^ 21"
    by (simp add: sample_fix_def)
  have twelve: "Math_round (coords_accuracy sample_fix) = 12"
    by (simp add: sample_fix_def Math_round_def eval_number)
  from v small have w: "\<bar>fixed_value (toFixed (\<lambda>x. ''1e+21'') (coords_latitude sample_fix) 5)
      - coords_latitude sample_fix\<bar> \<le> 1 / 200000"
    unfolding q ts by blast
  from t have "\<exists>ds. template_int (\<lambda>x. ''1e+21'') 12 = ds \<and> list_all is_digit ds \<and> int (dec_val ds) = 12"
    unfolding q ts twelve by auto
  moreover from s a l have "label ?r = ''GPS 6.52438, -3.37921 (+/-12m)'' \<and> accuracy ?r = Some 12
      \<and> source ?r = gps"
    unfolding q
    by (simp add: sample_fix_def Math_round_def template_int_def toFixed_def eval_number)
  ultimately show ?thesis using h w by blast
qed

section \<open>Properties of the check-in\<close>

lemma handleUploadAndSave_calls:
  assumes "snapshot st = Some snap" and "snap \<noteq> []" and "token = Some tok" and "tok \<noteq> []"
  shows "fst (handleUploadAndSave B S token st) =
     map Geo (fst (resolveLocation B st)) @
     (case snd (resolveLocation B st) of
        Inl msg \<Rightarrow> []
      | Inr l \<Rightarrow>
          UploadPhoto tok snap #
          (case post_uploads_photo S tok snap of
             Inl e \<Rightarrow> []
           | Inr u \<Rightarrow> [PostAttendance tok (attendanceBody l u)]))"
  using assms
  by (simp add: handleUploadAndSave_def Let_def split: prod.splits sum.splits)

lemma handleUploadAndSave_idle:
  assumes "\<not> (truthy (snapshot st) \<and> truthy token)"
  shows "handleUploadAndSave B S token st = ([], st)"
  using assms
  by (auto simp: handleUploadAndSave_def truthy_def split: option.splits)

lemma handleUploadAndSave_state:
  assumes "snapshot st = Some snap" and "snap \<noteq> []" and "token = Some tok" and "tok \<noteq> []"
  shows "snd (handleUploadAndSave B S token st) =
     (case snd (resolveLocation B st) of
        Inl msg \<Rightarrow> st\<lparr>uploading := False, error := msg, locationError := msg\<rparr>
      | Inr l \<Rightarrow>
          (case post_uploads_photo S tok snap of
             Inl e \<Rightarrow>
               st\<lparr>uploading := False, error := message_or e ''Upload failed'',
                  locationSource := Some (case locationSource st of Some v \<Rightarrow> v | None \<Rightarrow> gps)\<rparr>
           | Inr u \<Rightarrow>
               (case post_attendance S tok (attendanceBody l u) of
                  Inl e \<Rightarrow>
                    st\<lparr>uploading := False, error := message_or e ''Upload failed'',
                       locationSource := Some (case locationSource st of Some v \<Rightarrow> v | None \<Rightarrow> gps)\<rparr>
                | Inr record \<Rightarrow>
                    st\<lparr>uploading := False, error := [],
                       locationSource := Some (case locationSource st of Some v \<Rightarrow> v | None \<Rightarrow> gps),
                       attendance := Some record,
                       location := Some (savedLocation record l (locationSource st)),
                       snapshot := None\<rparr>)))"
  using assms
  by (simp add: handleUploadAndSave_def Let_def split: prod.splits sum.splits option.splits)

text \<open>
  Claim C5. A save that starts (a still image and a token are there) issues its calls in
  one fixed order: first the calls of resolving the position, which are none when a
  position is already in the state and a run of the location ladder otherwise; then, only
  if a position was resolved, the upload of the image; then, only if the upload succeeded,
  the creation of the record, whose body carries the URL and the public id the upload
  returned. When resolving the position fails, neither the upload nor the creation is
  issued.
\<close>

theorem save_call_order:
  assumes "snapshot st = Some snap" and "snap \<noteq> []" and "token = Some tok" and "tok \<noteq> []"
  shows "fst (handleUploadAndSave B S token st) =
     map Geo (if location st = None then fst (getDeviceLocation B) else []) @
     (case snd (resolveLocation B st) of
        Inl msg \<Rightarrow> []
      | Inr l \<Rightarrow>
          UploadPhoto tok snap #
          (case post_uploads_photo S tok snap of
             Inl e \<Rightarrow> []
           | Inr u \<Rightarrow>
               [PostAttendance tok
                  \<lparr>body_locationLabel = label l, body_latitude = latitude l,
                   body_longitude = longitude l, body_accuracy = accuracy l,
                   body_photoUrl = url u, body_photoPublicId = publicId u\<rparr>]))
   \<and> snd (resolveLocation B st) =
       (case location st of Some l \<Rightarrow> Inr l | None \<Rightarrow> snd (getDeviceLocation B))"
proof -
  have "fst (resolveLocation B st) = (if location st = None then fst (getDeviceLocation B) else [])"
    and "snd (resolveLocation B st) =
       (case location st of Some l \<Rightarrow> Inr l | None \<Rightarrow> snd (getDeviceLocation B))"
    by (simp_all add: resolveLocation_def split: option.splits)
  then show ?thesis
    using handleUploadAndSave_calls [OF assms, of B S]
    unfolding attendanceBody_def by simp
qed

theorem save_call_order_witness:
  "fst (handleUploadAndSave
         (test_browser (Inl (Object (Some 1) True)) (Inr sample_fix) (Inr sample_fix))
         accepting_server (Some ''tok'')
         (idle_state\<lparr>snapshot := Some ''data:image/jpeg;base64,AA''\<rparr>))
     = [Geo (GetCurrentPosition tier1)]
   \<and> fst (handleUploadAndSave
         (test_browser (Inl (Object (Some 1) True)) (Inr sample_fix) (Inr sample_fix))
         accepting_server (Some ''tok'')
         (idle_state\<lparr>snapshot := Some ''data:image/jpeg;base64,AA'',
                     location := Some sample_location\<rparr>))
     = [UploadPhoto ''tok'' ''data:image/jpeg;base64,AA'',
        PostAttendance ''tok'' (attendanceBody sample_location sample_upload)]"
proof -
  let ?B = "test_browser (Inl (Object (Some 1) True)) (Inr sample_fix) (Inr sample_fix)"
  let ?s1 = "idle_state\<lparr>snapshot := Some ''data:image/jpeg;base64,AA''\<rparr>"
  let ?s2 = "idle_state\<lparr>snapshot := Some ''data:image/jpeg;base64,AA'',
                     location := Some sample_location\<rparr>"
  have g: "getDeviceLocation ?B = ([GetCurrentPosition tier1],
      Inl ''Location permission denied. Please allow location access and retry.'')"
    by (simp add: getDeviceLocation_def getPosition_def test_browser_def)
  have l1: "location ?s1 = None" and l2: "location ?s2 = Some sample_location"
    by (simp_all add: idle_state_def)
  have a: "fst (handleUploadAndSave ?B accepting_server (Some ''tok'') ?s1)
      = [Geo (GetCurrentPosition tier1)]"
    using save_call_order [of ?s1 "''data:image/jpeg;base64,AA''" "Some ''tok''" "''tok''"
        ?B accepting_server]
    by (simp add: idle_state_def g)
  have b: "fst (handleUploadAndSave ?B accepting_server (Some ''tok'') ?s2)
      = [UploadPhoto ''tok'' ''data:image/jpeg;base64,AA'',
         PostAttendance ''tok'' (attendanceBody sample_location sample_upload)]"
    using save_call_order [of ?s2 "''data:image/jpeg;base64,AA''" "Some ''tok''" "''tok''"
        ?B accepting_server]
    by (simp add: idle_state_def accepting_server_def attendanceBody_def)
  from a b show ?thesis by simp
qed

text \<open>
  Claim C6. A save attempt either creates the record or leaves both the still image and
  the today slot as they were. It creates the record exactly when its creation call was
  issued and the server answered it with a record; then the slot holds that record, the
  location shown carries the record's label, and the still image is cleared.
\<close>

theorem snapshot_kept_until_saved:
  "(if \<exists>tok body record. PostAttendance tok body \<in> set (fst (handleUploadAndSave B S token st))
          \<and> post_attendance S tok body = Inr record
    then \<exists>tok body record l.
           PostAttendance tok body \<in> set (fst (handleUploadAndSave B S token st))
           \<and> post_attendance S tok body = Inr record
           \<and> attendance (snd (handleUploadAndSave B S token st)) = Some record
           \<and> location (snd (handleUploadAndSave B S token st)) = Some l
           \<and> label l = locationLabel record
           \<and> snapshot (snd (handleUploadAndSave B S token st)) = None
    else snapshot (snd (handleUploadAndSave B S token st)) = snapshot st
         \<and> attendance (snd (handleUploadAndSave B S token st)) = attendance st)"
proof (cases "truthy (snapshot st) \<and> truthy token")
  case False
  then show ?thesis
    by (simp add: handleUploadAndSave_idle)
next
  case True
  then obtain snap tok where
    h: "snapshot st = Some snap" "snap \<noteq> []" "token = Some tok" "tok \<noteq> []"
    by (auto simp: truthy_def split: option.splits)
  show ?thesis
    unfolding handleUploadAndSave_calls [OF h] handleUploadAndSave_state [OF h]
    by (auto simp: savedLocation_def split: sum.splits)
qed

theorem snapshot_kept_until_saved_witness:
  "snapshot (snd (handleUploadAndSave
       (test_browser (Inr sample_fix) (Inr sample_fix) (Inr sample_fix))
       rejecting_server (Some ''tok'')
       (idle_state\<lparr>snapshot := Some ''data:image/jpeg;base64,AA''\<rparr>)))
     = Some ''data:image/jpeg;base64,AA''
   \<and> snapshot (snd (handleUploadAndSave
       (test_browser (Inr sample_fix) (Inr sample_fix) (Inr sample_fix))
       accepting_server (Some ''tok'')
       (idle_state\<lparr>snapshot := Some ''data:image/jpeg;base64,AA''\<rparr>)))
     = None
   \<and> attendance (snd (handleUploadAndSave
       (test_browser (Inr sample_fix) (Inr sample_fix) (Inr sample_fix))
       accepting_server (Some ''tok'')
       (idle_state\<lparr>snapshot := Some ''data:image/jpeg;base64,AA''\<rparr>)))
     = Some sample_record"
proof -
  let ?B = "test_browser (Inr sample_fix) (Inr sample_fix) (Inr sample_fix)"
  let ?s = "idle_state\<lparr>snapshot := Some ''data:image/jpeg;base64,AA''\<rparr>"
  have h: "snapshot ?s = Some ''data:image/jpeg;base64,AA''" "''data:image/jpeg;base64,AA'' \<noteq> []"
    "Some ''tok'' = Some ''tok''" "''tok'' \<noteq> []"
    by (simp_all add: idle_state_def)
  have r: "snd (resolveLocation ?B ?s) = Inr (formatPosition ?B sample_fix)"
    by (simp add: resolveLocation_def idle_state_def getDeviceLocation_def getPosition_def
        test_browser_def)
  have no: "\<not> (\<exists>tok body record.
      PostAttendance tok body \<in> set (fst (handleUploadAndSave ?B rejecting_server (Some ''tok'') ?s))
      \<and> post_attendance rejecting_server tok body = Inr record)"
    by (simp add: rejecting_server_def)
  have yes: "\<exists>tok body record.
      PostAttendance tok body \<in> set (fst (handleUploadAndSave ?B accepting_server (Some ''tok'') ?s))
      \<and> post_attendance accepting_server tok body = Inr record"
    unfolding handleUploadAndSave_calls [OF h] r
    by (intro exI [of _ "''tok''"]
        exI [of _ "attendanceBody (formatPosition ?B sample_fix) sample_upload"]
        exI [of _ sample_record])
      (simp add: accepting_server_def)
  have p: "post_attendance accepting_server tok body = Inr r \<longleftrightarrow> r = sample_record"
    for tok body r
    by (auto simp: accepting_server_def)
  show ?thesis
    using no yes p
      snapshot_kept_until_saved [of ?B rejecting_server "Some ''tok''" ?s]
      snapshot_kept_until_saved [of ?B accepting_server "Some ''tok''" ?s]
    by (auto simp: h(1))
qed

lemma handleDelete_cases:
  "handleDelete S token st =
     (case (attendance st, token) of
        (Some a, Some tok) \<Rightarrow>
          if tok = [] then ([], st)
          else ([DeleteAttendance tok (rec_id a)],
                case delete_attendance S tok (rec_id a) of
                  Inr u \<Rightarrow> st\<lparr>uploading := False, error := [], attendance := None\<rparr>
                | Inl err \<Rightarrow>
                    st\<lparr>uploading := False, error := message_or err ''Unable to delete entry''\<rparr>)
      | _ \<Rightarrow> ([], st))"
  by (simp add: handleDelete_def Let_def split: option.splits sum.splits)

text \<open>
  While the today slot holds a record, the controls that lead to a save do nothing; a
  delete the server accepts empties the slot; and \<open>loading\<close> enters no control's
  condition.
\<close>

lemma click_with_record:
  assumes "attendance st \<noteq> None"
  shows "click cam B S token UploadSaveButton st = ([], st)"
    and "click cam B S token RetakeButton st = ([], st)"
    and "click cam B S token CameraButton st = ([], st)"
    and "click cam B S token CheckLocationButton st = ([], st)"
  using assms by (auto simp: click_def)

lemma delete_clears_slot:
  assumes "attendance st = Some a" and "\<not> uploading st" and "token = Some tok" and "tok \<noteq> []"
    and "delete_attendance S tok (rec_id a) = Inr ()"
  shows "fst (click cam B S token DeleteButton st) = [DeleteAttendance tok (rec_id a)]"
    and "attendance (snd (click cam B S token DeleteButton st)) = None"
  using assms by (simp_all add: click_def handleDelete_cases)

lemma controls_while_loading:
  "offered initial_state CameraButton"
  "offered (st\<lparr>loading := b\<rparr>) c = offered st c"
  by (cases c; simp add: initial_state_def)+

text \<open>
  Claim C4, against the code. The page means to keep one record per day: with a record
  in the today slot no save can be started, and only a delete empties the slot. But the
  slot is filled by the request sent when the page mounts, which settles at a moment of
  its own, and no control waits for it. In the first session a record of today exists
  and the answer that carries it is late: the user opens the camera, captures and saves
  before it arrives, the save is not rejected but uploads and creates a second record,
  and the late answer then puts the earlier record into the slot. In the second session
  the answer is an empty list that arrives after a save: it empties the slot although
  the record was created, the camera opens again, and a second record is created with no
  delete in between.
\<close>

theorem save_while_loading:
  "fst (session (Some ''tok'')
         [(Mount, CameraGranted,
           test_browser (Inr sample_fix) (Inr sample_fix) (Inr sample_fix), accepting_server),
          (Click CameraButton, CameraGranted,
           test_browser (Inr sample_fix) (Inr sample_fix) (Inr sample_fix), accepting_server),
          (Click (CaptureButton (Some ''data:image/jpeg;base64,AA'')), CameraGranted,
           test_browser (Inr sample_fix) (Inr sample_fix) (Inr sample_fix), accepting_server),
          (Click UploadSaveButton, CameraGranted,
           test_browser (Inr sample_fix) (Inr sample_fix) (Inr sample_fix), accepting_server),
          (TodayAnswer (Inr [earlier_record]), CameraGranted,
           test_browser (Inr sample_fix) (Inr sample_fix) (Inr sample_fix), accepting_server)]
         initial_state)
     = [[GetAttendanceToday ''tok''],
        [],
        [],
        [Geo (GetCurrentPosition tier1),
         UploadPhoto ''tok'' ''data:image/jpeg;base64,AA'',
         PostAttendance ''tok''
           (attendanceBody
              (formatPosition (test_browser (Inr sample_fix) (Inr sample_fix) (Inr sample_fix)) sample_fix)
              sample_upload)],
        []]
   \<and> post_attendance accepting_server ''tok''
        (attendanceBody
           (formatPosition (test_browser (Inr sample_fix) (Inr sample_fix) (Inr sample_fix)) sample_fix)
           sample_upload)
     = Inr sample_record
   \<and> rec_id earlier_record = ''a0'' \<and> rec_id sample_record = ''a1''
   \<and> attendance (snd (session (Some ''tok'')
         [(Mount, CameraGranted,
           test_browser (Inr sample_fix) (Inr sample_fix) (Inr sample_fix), accepting_server),
          (Click CameraButton, CameraGranted,
           test_browser (Inr sample_fix) (Inr sample_fix) (Inr sample_fix), accepting_server),
          (Click (CaptureButton (Some ''data:image/jpeg;base64,AA'')), CameraGranted,
           test_browser (Inr sample_fix) (Inr sample_fix) (Inr sample_fix), accepting_server),
          (Click UploadSaveButton, CameraGranted,
           test_browser (Inr sample_fix) (Inr sample_fix) (Inr sample_fix), accepting_server),
          (TodayAnswer (Inr [earlier_record]), CameraGranted,
           test_browser (Inr sample_fix) (Inr sample_fix) (Inr sample_fix), accepting_server)]
         initial_state))
     = Some earlier_record
   \<and> fst (session (Some ''tok'')
         [(Mount, CameraGranted,
           test_browser (Inr sample_fix) (Inr sample_fix) (Inr sample_fix), accepting_server),
          (Click CameraButton, CameraGranted,
           test_browser (Inr sample_fix) (Inr sample_fix) (Inr sample_fix), accepting_server),
          (Click (CaptureButton (Some ''data:image/jpeg;base64,AA'')), CameraGranted,
           test_browser (Inr sample_fix) (Inr sample_fix) (Inr sample_fix), accepting_server),
          (Click UploadSaveButton, CameraGranted,
           test_browser (Inr sample_fix) (Inr sample_fix) (Inr sample_fix), accepting_server),
          (TodayAnswer (Inr []), CameraGranted,
           test_browser (Inr sample_fix) (Inr sample_fix) (Inr sample_fix), accepting_server),
          (Click CameraButton, CameraGranted,
           test_browser (Inr sample_fix) (Inr sample_fix) (Inr sample_fix), accepting_server),
          (Click (CaptureButton (Some ''data:image/jpeg;base64,BB'')), CameraGranted,
           test_browser (Inr sample_fix) (Inr sample_fix) (Inr sample_fix), accepting_server),
          (Click UploadSaveButton, CameraGranted,
           test_browser (Inr sample_fix) (Inr sample_fix) (Inr sample_fix), accepting_server)]
         initial_state)
     = [[GetAttendanceToday ''tok''],
        [],
        [],
        [Geo (GetCurrentPosition tier1),
         UploadPhoto ''tok'' ''data:image/jpeg;base64,AA'',
         PostAttendance ''tok''
           (attendanceBody
              (formatPosition (test_browser (Inr sample_fix) (Inr sample_fix) (Inr sample_fix)) sample_fix)
              sample_upload)],
        [],
        [],
        [],
        [UploadPhoto ''tok'' ''data:image/jpeg;base64,BB'',
         PostAttendance ''tok''
           (attendanceBody
              (savedLocation sample_record
                 (formatPosition (test_browser (Inr sample_fix) (Inr sample_fix) (Inr sample_fix)) sample_fix)
                 None)
              sample_upload)]]"
proof -
  let ?B = "test_browser (Inr sample_fix) (Inr sample_fix) (Inr sample_fix)"
  have g: "getDeviceLocation ?B = ([GetCurrentPosition tier1], Inr (formatPosition ?B sample_fix))"
    by (simp add: getDeviceLocation_def getPosition_def test_browser_def)
  have ids: "rec_id earlier_record = ''a0''" "rec_id sample_record = ''a1''"
    by (simp_all add: earlier_record_def sample_record_def)
  have post: "post_attendance accepting_server tok body = Inr sample_record" for tok body
    by (simp add: accepting_server_def)
  have up: "post_uploads_photo accepting_server tok d = Inr sample_upload" for tok d
    by (simp add: accepting_server_def)
  show ?thesis
    by (simp add: ids post up g loadToday_def todayLoaded_def click_def cameraEffect_def
        toggleCamera_def capturePhoto_def handleUploadAndSave_def resolveLocation_def
        truthy_def initial_state_def)
qed

end
